theory Spec2Isabelle
  imports Main "HOL-Library.Sublist" "HOL-Library.AList"
begin

section \<open>Python strings and POSIX paths\<close>

text \<open>
  The functions of this section are the library calls that \<^verbatim>\<open>core.py\<close> makes on
  strings and paths (\<^verbatim>\<open>str.split\<close>, \<^verbatim>\<open>str.join\<close>, \<^verbatim>\<open>str.replace\<close>,
  \<^verbatim>\<open>os.path.join\<close>, \<^verbatim>\<open>os.path.normpath\<close>, \<^verbatim>\<open>os.path.abspath\<close>), written
  after the \<^verbatim>\<open>posixpath\<close> module. A Python \<^verbatim>\<open>str\<close> is the list of its
  characters, and a character is a Unicode code point, so that directory names with
  characters of any script are values of the model: \<open>Ch c\<close> is the code point of the
  8-bit character \<open>c\<close> (the code points below 256), \<open>Wide n\<close> is the code point
  \<open>256 + n\<close>. \<open>ascii s\<close> is the \<^verbatim>\<open>str\<close> written with the characters of the
  literal \<open>s\<close>.
\<close>

datatype pychar = Ch char | Wide nat

type_synonym pystr = "pychar list"

fun code_point :: "pychar \<Rightarrow> nat" where
  "code_point (Ch c) = of_char c"
| "code_point (Wide n) = 256 + n"

definition ascii_char :: "char \<Rightarrow> pychar" where
  "ascii_char c = Ch c"

definition ascii :: "string \<Rightarrow> pystr" where
  "ascii s = map ascii_char s"

fun split_on :: "pychar \<Rightarrow> pystr \<Rightarrow> pystr list" where
  "split_on sep [] = [[]]"
| "split_on sep (c # cs) =
     (if c = sep then [] # split_on sep cs
      else (case split_on sep cs of
              [] \<Rightarrow> [[c]]
            | x # xs \<Rightarrow> (c # x) # xs))"

fun py_join :: "pystr \<Rightarrow> pystr list \<Rightarrow> pystr" where
  "py_join sep [] = []"
| "py_join sep [x] = x"
| "py_join sep (x # y # ys) = x @ sep @ py_join sep (y # ys)"

definition py_replace :: "pychar \<Rightarrow> pychar \<Rightarrow> pystr \<Rightarrow> pystr" where
  "py_replace old new s = map (\<lambda>c. if c = old then new else c) s"

definition startswith :: "pystr \<Rightarrow> pystr \<Rightarrow> bool" where
  "startswith s p = prefix p s"

definition endswith :: "pystr \<Rightarrow> pystr \<Rightarrow> bool" where
  "endswith s p = suffix p s"

definition os_path_join :: "pystr \<Rightarrow> pystr \<Rightarrow> pystr" where
  "os_path_join a b =
     (if startswith b (ascii ''/'') then b
      else if a = [] \<or> endswith a (ascii ''/'') then a @ b
      else a @ (ascii ''/'') @ b)"

definition os_path_join3 :: "pystr \<Rightarrow> pystr \<Rightarrow> pystr \<Rightarrow> pystr" where
  "os_path_join3 a b c = os_path_join (os_path_join a b) c"

definition normpath_step :: "bool \<Rightarrow> pystr list \<Rightarrow> pystr \<Rightarrow> pystr list" where
  "normpath_step initial_slashes new_comps part =
     (if part = [] \<or> part = (ascii ''.'') then new_comps
      else if part \<noteq> (ascii ''..'') \<or> (\<not> initial_slashes \<and> new_comps = [])
                \<or> (new_comps \<noteq> [] \<and> last new_comps = (ascii ''..''))
           then new_comps @ [part]
      else if new_comps \<noteq> [] then butlast new_comps
      else new_comps)"

definition normpath :: "pystr \<Rightarrow> pystr" where
  "normpath path =
     (if path = [] then (ascii ''.'')
      else
        let initial_slashes =
              (if \<not> startswith path (ascii ''/'') then 0
               else if startswith path (ascii ''//'') \<and> \<not> startswith path (ascii ''///'') then 2
               else (1::nat));
            comps = split_on (ascii_char CHR ''/'') path;
            new_comps = foldl (normpath_step (initial_slashes \<noteq> 0)) [] comps;
            joined = replicate initial_slashes (ascii_char CHR ''/'') @ py_join (ascii ''/'') new_comps
        in if joined = [] then (ascii ''.'') else joined)"

definition abspath :: "pystr \<Rightarrow> pystr \<Rightarrow> pystr" where
  "abspath cwd path =
     (if startswith path (ascii ''/'') then normpath path
      else normpath (os_path_join cwd path))"

section \<open>The two run-id patterns\<close>

text \<open>
  \<^verbatim>\<open>find_run_dirs\<close> matches a directory name against two regular expressions with
  \<^verbatim>\<open>re.match\<close>, which anchors the pattern at the start of the name. The patterns use
  character classes, fixed repetition counts, one \<^verbatim>\<open>+\<close> and a final \<^verbatim>\<open>$\<close>.
  \<open>match_items\<close> returns the remainders of the name after every way of matching the
  pattern, the greedy way first, so backtracking over \<^verbatim>\<open>+\<close> is covered;
  \<^verbatim>\<open>re.match\<close> succeeds when there is such a way. \<^verbatim>\<open>$\<close> matches at the end of the
  name and also just before a newline that ends it.

  The patterns are \<^verbatim>\<open>str\<close> patterns, so \<^verbatim>\<open>\d\<close> and \<^verbatim>\<open>\w\<close> follow Unicode:
  \<^verbatim>\<open>\d\<close> matches the characters for which \<^verbatim>\<open>str.isdecimal\<close> holds, \<^verbatim>\<open>\w\<close> those
  for which \<^verbatim>\<open>str.isalnum\<close> holds and the underscore. Below code point 128 these are
  \<^verbatim>\<open>[0-9]\<close> and \<^verbatim>\<open>[A-Za-z0-9_]\<close>; from 128 on they are read from the character
  database of the interpreter, which is a parameter here. The sets \<^verbatim>\<open>[A-Z0-9]\<close> and
  \<^verbatim>\<open>[a-z0-9]\<close> and the literal characters are the same under Unicode.
\<close>

record unicode_db =
  isdecimal :: "pychar \<Rightarrow> bool"
  isalnum :: "pychar \<Rightarrow> bool"

datatype atom = Digit | Word | Lit pychar | OneOf pystr

datatype item = One atom | Times atom nat | Plus atom | Dollar

fun match_atom :: "unicode_db \<Rightarrow> atom \<Rightarrow> pychar \<Rightarrow> bool" where
  "match_atom db Digit c =
     (if code_point c < 128 then c \<in> set (ascii ''0123456789'') else isdecimal db c)"
| "match_atom db Word c =
     (if code_point c < 128
      then c \<in> set (ascii ''abcdefghijklmnopqrstuvwxyzABCDEFGHIJKLMNOPQRSTUVWXYZ0123456789_'')
      else isalnum db c)"
| "match_atom db (Lit l) c = (c = l)"
| "match_atom db (OneOf cs) c = (c \<in> set cs)"

fun match_times :: "unicode_db \<Rightarrow> atom \<Rightarrow> nat \<Rightarrow> pystr \<Rightarrow> pystr option" where
  "match_times db a 0 s = Some s"
| "match_times db a (Suc n) [] = None"
| "match_times db a (Suc n) (c # cs) =
     (if match_atom db a c then match_times db a n cs else None)"

fun match_plus :: "unicode_db \<Rightarrow> atom \<Rightarrow> pystr \<Rightarrow> pystr list" where
  "match_plus db a [] = []"
| "match_plus db a (c # cs) = (if match_atom db a c then match_plus db a cs @ [cs] else [])"

fun match_items :: "unicode_db \<Rightarrow> item list \<Rightarrow> pystr \<Rightarrow> pystr list" where
  "match_items db [] s = [s]"
| "match_items db (One a # its) s =
     (case s of
        [] \<Rightarrow> []
      | c # cs \<Rightarrow> if match_atom db a c then match_items db its cs else [])"
| "match_items db (Times a n # its) s =
     (case match_times db a n s of
        None \<Rightarrow> []
      | Some r \<Rightarrow> match_items db its r)"
| "match_items db (Plus a # its) s =
     concat (map (match_items db its) (match_plus db a s))"
| "match_items db (Dollar # its) s =
     (if s = [] \<or> s = [ascii_char (CHR 0x0A)] then match_items db its s else [])"

definition re_match :: "unicode_db \<Rightarrow> item list \<Rightarrow> pystr \<Rightarrow> bool" where
  "re_match db pattern s = (match_items db pattern s \<noteq> [])"

definition upper_alnum :: atom where
  "upper_alnum = OneOf (ascii ''ABCDEFGHIJKLMNOPQRSTUVWXYZ0123456789'')"

definition lower_alnum :: atom where
  "lower_alnum = OneOf (ascii ''abcdefghijklmnopqrstuvwxyz0123456789'')"

definition gridion_run_id_regex :: "item list" where
  "gridion_run_id_regex =
     [Times Digit 8, One (Lit (ascii_char CHR ''_'')), Times Digit 4, One (Lit (ascii_char CHR ''_'')),
      One (Lit (ascii_char CHR ''X'')), One Digit, One (Lit (ascii_char CHR ''_'')),
      Times upper_alnum 8, One (Lit (ascii_char CHR ''_'')), Times lower_alnum 8, Dollar]"

definition promethion_run_id_regex :: "item list" where
  "promethion_run_id_regex =
     [Times Digit 8, One (Lit (ascii_char CHR ''_'')), Times Digit 4, One (Lit (ascii_char CHR ''_'')),
      One (Lit (ascii_char CHR ''P'')), One (Lit (ascii_char CHR ''2'')), One (Lit (ascii_char CHR ''S'')), One (Lit (ascii_char CHR ''_'')),
      Plus Digit, One (Lit (ascii_char CHR ''-'')), One Word, One (Lit (ascii_char CHR ''_'')),
      Times upper_alnum 8, One (Lit (ascii_char CHR ''_'')), Times lower_alnum 8, Dollar]"

section \<open>Text forms of numbers, values and times\<close>

function str_nat :: "nat \<Rightarrow> pystr" where
  "str_nat n =
     (if n < 10 then [(ascii ''0123456789'') ! n]
      else str_nat (n div 10) @ [(ascii ''0123456789'') ! (n mod 10)])"
  by pat_completeness auto
termination
  by (relation "measure (\<lambda>n. n)") auto

declare str_nat.simps [simp del]

definition zfill :: "nat \<Rightarrow> pystr \<Rightarrow> pystr" where
  "zfill width s = replicate (width - length s) (ascii_char CHR ''0'') @ s"

text \<open>
  A pipeline's name and version and its parameter values are dynamically typed:
  \<open>POther\<close> is any object that is neither \<^verbatim>\<open>None\<close> nor a string, an integer or a
  boolean (a float, a list), given by the text \<^verbatim>\<open>str()\<close> returns for it.
\<close>

datatype pyval = PNone | PStr pystr | PInt int | PBool bool | POther pystr

fun py_str :: "pyval \<Rightarrow> pystr" where
  "py_str PNone = (ascii ''None'')"
| "py_str (PStr s) = s"
| "py_str (PInt i) = (if i < 0 then (ascii ''-'') @ str_nat (nat (- i)) else str_nat (nat i))"
| "py_str (PBool b) = (if b then (ascii ''True'') else (ascii ''False''))"
| "py_str (POther text) = text"

fun is_str :: "pyval \<Rightarrow> bool" where
  "is_str (PStr s) = True"
| "is_str v = False"

text \<open>A reading of \<^verbatim>\<open>datetime.datetime.now()\<close>: a naive local time.\<close>

record datetime =
  dt_year :: nat
  dt_month :: nat
  dt_day :: nat
  dt_hour :: nat
  dt_minute :: nat
  dt_second :: nat
  dt_microsecond :: nat

text \<open>\<^verbatim>\<open>strftime('%Y%m%d%H%M%S')\<close>\<close>

definition strftime :: "datetime \<Rightarrow> pystr" where
  "strftime t =
     zfill 4 (str_nat (dt_year t)) @ zfill 2 (str_nat (dt_month t))
     @ zfill 2 (str_nat (dt_day t)) @ zfill 2 (str_nat (dt_hour t))
     @ zfill 2 (str_nat (dt_minute t)) @ zfill 2 (str_nat (dt_second t))"

definition isoformat :: "datetime \<Rightarrow> pystr" where
  "isoformat t =
     zfill 4 (str_nat (dt_year t)) @ (ascii ''-'') @ zfill 2 (str_nat (dt_month t)) @ (ascii ''-'')
     @ zfill 2 (str_nat (dt_day t)) @ (ascii ''T'') @ zfill 2 (str_nat (dt_hour t)) @ (ascii '':'')
     @ zfill 2 (str_nat (dt_minute t)) @ (ascii '':'') @ zfill 2 (str_nat (dt_second t))
     @ (if dt_microsecond t \<noteq> 0 then (ascii ''.'') @ zfill 6 (str_nat (dt_microsecond t)) else [])"

text \<open>
  The shape of an ISO-8601 local date and time, with or without microseconds: every
  digit is replaced by \<open>0\<close> and the result compared with the two templates.
\<close>

definition digit_shape :: "pystr \<Rightarrow> pystr" where
  "digit_shape s = map (\<lambda>c. if c \<in> set (ascii ''0123456789'') then (ascii_char CHR ''0'') else c) s"

definition is_iso8601 :: "pystr \<Rightarrow> bool" where
  "is_iso8601 s =
     (digit_shape s = (ascii ''0000-00-00T00:00:00'')
      \<or> digit_shape s = (ascii ''0000-00-00T00:00:00.000000''))"

definition valid_datetime :: "datetime \<Rightarrow> bool" where
  "valid_datetime t =
     (1 \<le> dt_year t \<and> dt_year t \<le> 9999 \<and> 1 \<le> dt_month t \<and> dt_month t \<le> 12
      \<and> 1 \<le> dt_day t \<and> dt_day t \<le> 31 \<and> dt_hour t < 24 \<and> dt_minute t < 60
      \<and> dt_second t < 60 \<and> dt_microsecond t < 1000000)"

section \<open>The world outside the program\<close>

text \<open>
  The filesystem maps a path, as it is spelled, to the entry that is there. A completion
  marker is kept as the JSON object \<^verbatim>\<open>json.dump\<close> serialises (its keys in order, all
  values strings); what other files hold does not matter here. A symbolic link stands
  for what it leads to; \<open>BrokenLink\<close> is a link that leads nowhere: an entry of its
  directory, for which \<^verbatim>\<open>os.path.exists\<close> answers \<^verbatim>\<open>False\<close>.
\<close>

datatype node = Dir | File "(pystr \<times> pystr) list" | BrokenLink

type_synonym filesystem = "pystr \<Rightarrow> node option"

definition os_path_exists :: "filesystem \<Rightarrow> pystr \<Rightarrow> bool" where
  "os_path_exists fs p =
     (case fs p of
        None \<Rightarrow> False
      | Some BrokenLink \<Rightarrow> False
      | Some entry \<Rightarrow> True)"

text \<open>
  An entry that \<^verbatim>\<open>os.scandir\<close> returns: its name and what \<^verbatim>\<open>is_dir()\<close> does,
  \<open>Some\<close> of its answer or \<open>None\<close> when it raises \<^verbatim>\<open>OSError\<close> (the entry is a
  symbolic link that cannot be followed: a loop of links, a target that may not be read).
  A listing is the entries the iterator returns, in its order, and whether reading the
  directory raises \<^verbatim>\<open>OSError\<close> after them.
\<close>

record dir_entry =
  entry_name :: pystr
  entry_is_dir :: "bool option"

record listing =
  listed :: "dir_entry list"
  listing_fails :: bool

text \<open>
  What \<^verbatim>\<open>subprocess.run(..., check=True)\<close> can do: the process runs and ends with a
  return code (negative when a signal killed it; a non-zero one raises
  \<^verbatim>\<open>CalledProcessError\<close>), or the call raises
  \<^verbatim>\<open>OSError\<close> (the executable is missing) or \<^verbatim>\<open>ValueError\<close> (an argument holds a
  NUL character) without running anything.
\<close>

datatype proc_result = Exited int | SpawnOSError | SpawnValueError

text \<open>
  Everything the program asks of its surroundings:
  \<^item> \<open>getcwd\<close>: the working directory \<^verbatim>\<open>os.path.abspath\<close> resolves against;
  \<^item> \<open>home\<close>: what \<^verbatim>\<open>os.path.expanduser('~')\<close> returns;
  \<^item> \<open>unicode\<close>: the character database of the interpreter;
  \<^item> \<open>scandir\<close>: the listing of a directory, \<open>None\<close> when \<^verbatim>\<open>os.scandir\<close> raises
    \<^verbatim>\<open>OSError\<close>;
  \<^item> \<open>now\<close>: the successive readings of the clock, by the number of earlier readings;
  \<^item> \<open>subprocess_run\<close>: for the number of earlier invocations, the command and the
    filesystem, how the call ends and the filesystem the process leaves behind;
  \<^item> \<open>write_error\<close>: \<open>Some fs'\<close> when opening or writing the file at a path raises
    \<^verbatim>\<open>OSError\<close>, leaving \<open>fs'\<close>; \<open>None\<close> when the file is written;
  \<^item> \<open>rmtree_error\<close>: \<open>Some fs'\<close> when removing the tree at a path fails, leaving
    \<open>fs'\<close>; \<open>None\<close> when the tree is removed.
\<close>

record os_env =
  getcwd :: pystr
  home :: pystr
  unicode :: unicode_db
  scandir :: "pystr \<Rightarrow> listing option"
  now :: "nat \<Rightarrow> datetime"
  subprocess_run :: "nat \<Rightarrow> pystr list \<Rightarrow> filesystem \<Rightarrow> proc_result \<times> filesystem"
  write_error :: "pystr \<Rightarrow> filesystem \<Rightarrow> filesystem option"
  rmtree_error :: "pystr \<Rightarrow> filesystem \<Rightarrow> filesystem option"

datatype level = Debug | Info | Error

datatype event =
    ScanStart
  | RunDirectoryFound pystr pystr
  | DirectorySkipped pystr "(pystr \<times> bool) list"
  | AnalysisStarted pystr pystr
  | AnalysisCompleted pystr pystr
  | AnalysisWorkDirDeleted pystr pystr
  | AnalysisFailed pystr pystr
  | DeleteAnalysisWorkDirFailed pystr pystr

type_synonym log_entry = "level \<times> event"

datatype error =
    OSError
  | IndexError
  | AttributeError
  | KeyError pystr
  | TypeError
  | ValueError

section \<open>Configuration\<close>

text \<open>
  The configuration is a loosely typed dictionary. The keys the code reads without a
  test are fields here; the three optional keys are \<open>option\<close>s. Values that the code
  hands to \<^verbatim>\<open>os.path.join\<close> or \<^verbatim>\<open>str.join\<close> are strings, and so are the flags of
  a pipeline's parameters (the keys of a dictionary).
\<close>

record pipeline =
  pipeline_name :: pyval
  pipeline_version :: pyval
  pipeline_parameters :: "(pystr \<times> pyval) list"

record config =
  fastq_by_run_dir :: pystr
  analysis_output_dir :: pystr
  analysis_work_dir :: pystr
  pipelines :: "pipeline list"
  excluded_runs :: "pystr list option"
  notification_email_addresses :: "pystr list option"
  send_notification_emails :: "bool option"

text \<open>A run descriptor is a dictionary from field names to strings, in insertion order.\<close>

type_synonym run = "(pystr \<times> pystr) list"

section \<open>Run discovery\<close>

definition entry_path :: "pystr \<Rightarrow> dir_entry \<Rightarrow> pystr" where
  "entry_path scandir_path subdir = os_path_join scandir_path (entry_name subdir)"

definition instrument_type_of :: "unicode_db \<Rightarrow> pystr \<Rightarrow> pystr" where
  "instrument_type_of db run_id =
     (if re_match db gridion_run_id_regex run_id then (ascii ''gridion'')
      else if re_match db promethion_run_id_regex run_id then (ascii ''promethion'')
      else (ascii ''unknown''))"

text \<open>
  The dictionary \<^verbatim>\<open>conditions_checked\<close>, for the answer \<open>is_directory\<close> that
  \<^verbatim>\<open>subdir.is_dir()\<close> has returned.
\<close>

definition conditions_checked ::
  "unicode_db \<Rightarrow> filesystem \<Rightarrow> config \<Rightarrow> bool \<Rightarrow> dir_entry \<Rightarrow> bool
     \<Rightarrow> (pystr \<times> bool) list" where
  "conditions_checked db fs config check_symlinks_complete subdir is_directory =
     (let run_id = entry_name subdir;
          matches_gridion_regex = re_match db gridion_run_id_regex run_id;
          matches_promethion_regex = re_match db promethion_run_id_regex run_id;
          symlinks_complete =
            os_path_exists fs
              (os_path_join (entry_path (fastq_by_run_dir config) subdir)
                 (ascii ''symlinks_complete.json''));
          analysis_not_already_initiated =
            (\<not> os_path_exists fs (os_path_join (analysis_output_dir config) run_id));
          not_excluded =
            (case excluded_runs config of
               None \<Rightarrow> True
             | Some excluded \<Rightarrow> \<not> (run_id \<in> set excluded))
      in [((ascii ''is_directory''), is_directory),
          ((ascii ''matches_nanopore_run_id_format''),
             matches_gridion_regex \<or> matches_promethion_regex),
          ((ascii ''analysis_not_already_initiated''), analysis_not_already_initiated),
          ((ascii ''not_excluded''), not_excluded)]
         @ (if check_symlinks_complete
            then [((ascii ''symlinks_complete''), symlinks_complete)] else []))"

text \<open>
  One pass of the loop of \<^verbatim>\<open>find_run_dirs\<close> in which \<^verbatim>\<open>subdir.is_dir()\<close> returns
  \<open>is_directory\<close>: the event it logs and the value it yields, for the filesystem as it
  is when the loop reaches the entry.
\<close>

definition visit_subdir ::
  "os_env \<Rightarrow> config \<Rightarrow> bool \<Rightarrow> dir_entry \<Rightarrow> bool \<Rightarrow> filesystem
     \<Rightarrow> log_entry \<times> run option" where
  "visit_subdir env config check_symlinks_complete subdir is_directory fs =
     (let run_id = entry_name subdir;
          run_directory_path = abspath (getcwd env) (entry_path (fastq_by_run_dir config) subdir);
          checked = conditions_checked (unicode env) fs config check_symlinks_complete subdir
                      is_directory;
          conditions_met = map snd checked
      in if list_all (\<lambda>b. b) conditions_met
         then ((Info, RunDirectoryFound run_id run_directory_path),
               Some [((ascii ''run_dir''), run_directory_path),
                     ((ascii ''sequencing_run_id''), run_id),
                     ((ascii ''instrument_type''), instrument_type_of (unicode env) run_id)])
         else ((Debug, DirectorySkipped run_directory_path checked), None))"

text \<open>
  \<^verbatim>\<open>find_run_dirs\<close> is a generator: it yields once per entry it reaches, and the
  caller may change the filesystem between two yields. Its value here is what it yields,
  in order, each as a function of the filesystem the loop finds when it resumes, and how
  it ends: \<open>None\<close> when the listing is exhausted, \<open>Some e\<close> when \<open>e\<close> is raised.
  No statement of the loop is inside a \<^verbatim>\<open>try\<close>, so the first \<^verbatim>\<open>is_dir()\<close> that
  raises ends the generator, and the entries after it are never looked at.
\<close>

fun iterate_subdirs ::
  "os_env \<Rightarrow> config \<Rightarrow> bool \<Rightarrow> dir_entry list \<Rightarrow> bool
     \<Rightarrow> (filesystem \<Rightarrow> log_entry \<times> run option) list \<times> error option" where
  "iterate_subdirs env config check_symlinks_complete [] fails =
     ([], if fails then Some OSError else None)"
| "iterate_subdirs env config check_symlinks_complete (subdir # rest) fails =
     (case entry_is_dir subdir of
        None \<Rightarrow> ([], Some OSError)
      | Some is_directory \<Rightarrow>
          (visit_subdir env config check_symlinks_complete subdir is_directory
             # fst (iterate_subdirs env config check_symlinks_complete rest fails),
           snd (iterate_subdirs env config check_symlinks_complete rest fails)))"

definition find_run_dirs ::
  "os_env \<Rightarrow> config \<Rightarrow> bool
     \<Rightarrow> (filesystem \<Rightarrow> log_entry \<times> run option) list \<times> error option" where
  "find_run_dirs env config check_symlinks_complete =
     (case scandir env (fastq_by_run_dir config) of
        None \<Rightarrow> ([], Some OSError)
      | Some subdirs \<Rightarrow>
          iterate_subdirs env config check_symlinks_complete (listed subdirs)
            (listing_fails subdirs))"

text \<open>\<^verbatim>\<open>scan\<close> logs \<^verbatim>\<open>scan_start\<close> and yields what \<^verbatim>\<open>find_run_dirs\<close> yields.\<close>

definition scan ::
  "os_env \<Rightarrow> config
     \<Rightarrow> log_entry \<times> (filesystem \<Rightarrow> log_entry \<times> run option) list \<times> error option" where
  "scan env config = ((Info, ScanStart), find_run_dirs env config True)"

section \<open>Analysis dispatch\<close>

text \<open>
  What \<^verbatim>\<open>analyze_run\<close> changes besides its run descriptor: the filesystem, the log,
  the number of clock readings taken and the commands handed to \<^verbatim>\<open>subprocess.run\<close>.
  An exception leaves the effects made before it, so every function returns the state
  together with the exception, if any.
\<close>

record state =
  files :: filesystem
  logged :: "log_entry list"
  clock_reads :: nat
  executed :: "pystr list list"

definition datetime_now :: "os_env \<Rightarrow> state \<Rightarrow> datetime \<times> state" where
  "datetime_now env st = (now env (clock_reads st), st\<lparr>clock_reads := Suc (clock_reads st)\<rparr>)"

definition logging :: "level \<Rightarrow> event \<Rightarrow> state \<Rightarrow> state" where
  "logging lv ev st = st\<lparr>logged := logged st @ [(lv, ev)]\<rparr>"

text \<open>\<^verbatim>\<open>pipeline['pipeline_name'].split('/')[1].replace('_', '-')\<close>\<close>

definition pipeline_short_name :: "pipeline \<Rightarrow> error + pystr" where
  "pipeline_short_name pipeline =
     (case pipeline_name pipeline of
        PStr name \<Rightarrow>
          (let parts = split_on (ascii_char CHR ''/'') name
           in if 1 < length parts then Inr (py_replace (ascii_char CHR ''_'') (ascii_char CHR ''-'') (parts ! 1))
              else Inl IndexError)
      | _ \<Rightarrow> Inl AttributeError)"

text \<open>\<^verbatim>\<open>'.'.join(pipeline['pipeline_version'].split('.')[0:2])\<close>\<close>

definition pipeline_minor_version :: "pipeline \<Rightarrow> error + pystr" where
  "pipeline_minor_version pipeline =
     (case pipeline_version pipeline of
        PStr version \<Rightarrow> Inr (py_join (ascii ''.'') (take 2 (split_on (ascii_char CHR ''.'') version)))
      | _ \<Rightarrow> Inl AttributeError)"

text \<open>
  The local variables \<^verbatim>\<open>analysis_output_dir\<close>, \<^verbatim>\<open>analysis_work_dir\<close> and
  \<^verbatim>\<open>analysis_trace_path\<close> of the loop body. The loop body also computes
  \<^verbatim>\<open>analysis_report_path\<close> and \<^verbatim>\<open>notification_email_addresses\<close>; the first is
  never used, the second only in \<open>base_command\<close>.
\<close>

definition pipeline_output_dir :: "config \<Rightarrow> pystr \<Rightarrow> pystr \<Rightarrow> pystr \<Rightarrow> pystr" where
  "pipeline_output_dir config analysis_run_id short_name minor_version =
     os_path_join3 (analysis_output_dir config) analysis_run_id
       (short_name @ (ascii ''-'') @ minor_version @ (ascii ''-output''))"

definition pipeline_work_dir :: "os_env \<Rightarrow> config \<Rightarrow> pystr \<Rightarrow> pystr \<Rightarrow> pystr" where
  "pipeline_work_dir env config analysis_run_id analysis_timestamp =
     abspath (getcwd env)
       (os_path_join (analysis_work_dir config)
          ((ascii ''work-'') @ analysis_run_id @ (ascii ''-'') @ analysis_timestamp))"

definition pipeline_trace_path :: "os_env \<Rightarrow> config \<Rightarrow> pystr \<Rightarrow> pystr \<Rightarrow> pystr \<Rightarrow> pystr" where
  "pipeline_trace_path env config analysis_run_id short_name minor_version =
     abspath (getcwd env)
       (os_path_join
          (os_path_join3 (analysis_output_dir config) analysis_run_id
             (short_name @ (ascii ''-'') @ minor_version @ (ascii ''-output'')))
          (analysis_run_id @ (ascii ''_trace.tsv'')))"

text \<open>
  The command before the parameter loop. The name and the version are placed on it as
  the configuration has them.
\<close>

definition base_command :: "os_env \<Rightarrow> config \<Rightarrow> pipeline \<Rightarrow> pystr \<Rightarrow> pystr \<Rightarrow> pyval list" where
  "base_command env config pipeline work_dir trace_path =
     [PStr (ascii ''nextflow''), PStr (ascii ''run''), pipeline_name pipeline,
      PStr (ascii ''-r''), pipeline_version pipeline,
      PStr (ascii ''-profile''), PStr (ascii ''conda''),
      PStr (ascii ''--cache''), PStr (os_path_join (home env) (ascii ''.conda/envs'')),
      PStr (ascii ''-work-dir''), PStr work_dir,
      PStr (ascii ''-with-trace''), PStr trace_path]
     @ (if send_notification_emails config = Some True
        then [PStr (ascii ''-with-notification''),
              PStr (py_join (ascii '','')
                      (case notification_email_addresses config of
                         Some addresses \<Rightarrow> addresses
                       | None \<Rightarrow> []))]
        else [])"

text \<open>
  The parameter loop: each pass appends the flag and its value and then maps
  \<^verbatim>\<open>str\<close> over the whole command.
\<close>

fun add_parameters :: "run \<Rightarrow> (pystr \<times> pyval) list \<Rightarrow> pyval list \<Rightarrow> error + pyval list" where
  "add_parameters run [] pipeline_command = Inr pipeline_command"
| "add_parameters run ((flag, config_value) # rest) pipeline_command =
     (case (if config_value = PNone
            then (case map_of run flag of
                    None \<Rightarrow> Inl (KeyError flag)
                  | Some field \<Rightarrow> Inr (PStr field))
            else Inr config_value) of
        Inl e \<Rightarrow> Inl e
      | Inr val \<Rightarrow>
          add_parameters run rest
            (map (\<lambda>x. PStr (py_str x)) (pipeline_command @ [PStr ((ascii ''--'') @ flag), val])))"

text \<open>The value of \<^verbatim>\<open>pipeline_command\<close> when the loop is over.\<close>

definition pipeline_command ::
  "os_env \<Rightarrow> config \<Rightarrow> pipeline \<Rightarrow> run \<Rightarrow> pystr \<Rightarrow> pystr \<Rightarrow> error + pyval list" where
  "pipeline_command env config pipeline run work_dir trace_path =
     add_parameters run (pipeline_parameters pipeline)
       (base_command env config pipeline work_dir trace_path)"

text \<open>
  \<^verbatim>\<open>" ".join\<close> and \<^verbatim>\<open>subprocess.run\<close> take strings only and raise
  \<^verbatim>\<open>TypeError\<close> on anything else.
\<close>

definition str_items :: "pyval list \<Rightarrow> pystr list option" where
  "str_items xs = (if list_all is_str xs then Some (map py_str xs) else None)"

text \<open>
  One dispatch up to the \<^verbatim>\<open>try\<close> block: the run descriptor as updated, the state
  after the \<^verbatim>\<open>analysis_started\<close> event, and the derived names and command.
\<close>

record invocation =
  inv_run :: run
  inv_state :: state
  inv_run_id :: pystr
  inv_output_dir :: pystr
  inv_work_dir :: pystr
  inv_command :: "pystr list"

definition prepare_invocation ::
  "os_env \<Rightarrow> config \<Rightarrow> pipeline \<Rightarrow> run \<Rightarrow> state \<Rightarrow> (error \<times> run \<times> state) + invocation" where
  "prepare_invocation env config pipeline run st =
     (case pipeline_short_name pipeline of
        Inl e \<Rightarrow> Inl (e, run, st)
      | Inr short_name \<Rightarrow>
     (case pipeline_minor_version pipeline of
        Inl e \<Rightarrow> Inl (e, run, st)
      | Inr minor_version \<Rightarrow>
     (let analysis_timestamp = strftime (fst (datetime_now env st));
          st1 = snd (datetime_now env st)
      in
     (case map_of run (ascii ''sequencing_run_id'') of
        None \<Rightarrow> Inl (KeyError (ascii ''sequencing_run_id''), run, st1)
      | Some analysis_run_id \<Rightarrow>
     (case map_of run (ascii ''run_dir'') of
        None \<Rightarrow> Inl (KeyError (ascii ''run_dir''), run, st1)
      | Some run_dir \<Rightarrow>
     (let output_dir = pipeline_output_dir config analysis_run_id short_name minor_version;
          run1 = AList.update (ascii ''fastq_input'') run_dir run;
          run2 = AList.update (ascii ''outdir'') output_dir run1;
          work_dir = pipeline_work_dir env config analysis_run_id analysis_timestamp;
          trace_path = pipeline_trace_path env config analysis_run_id short_name minor_version
      in
     (case pipeline_command env config pipeline run2 work_dir trace_path of
        Inl e \<Rightarrow> Inl (e, run2, st1)
      | Inr command \<Rightarrow>
     (case str_items command of
        None \<Rightarrow> Inl (TypeError, run2, st1)
      | Some args \<Rightarrow>
          Inr \<lparr>inv_run = run2,
               inv_state = logging Info (AnalysisStarted analysis_run_id (py_join (ascii '' '') args)) st1,
               inv_run_id = analysis_run_id,
               inv_output_dir = output_dir,
               inv_work_dir = work_dir,
               inv_command = args\<rparr>))))))))"

text \<open>\<^verbatim>\<open>shutil.rmtree(path, ignore_errors=True)\<close>: the tree is the path and all below it.\<close>

definition remove_tree :: "pystr \<Rightarrow> filesystem \<Rightarrow> filesystem" where
  "remove_tree path fs = (\<lambda>p. if p = path \<or> prefix (path @ (ascii ''/'')) p then None else fs p)"

definition rmtree_ignore_errors :: "os_env \<Rightarrow> pystr \<Rightarrow> filesystem \<Rightarrow> filesystem" where
  "rmtree_ignore_errors env path fs =
     (case rmtree_error env path fs of
        None \<Rightarrow> remove_tree path fs
      | Some fs' \<Rightarrow> fs')"

text \<open>The \<^verbatim>\<open>try\<close> block after \<^verbatim>\<open>subprocess.run\<close> has returned normally.\<close>

definition record_completion ::
  "os_env \<Rightarrow> invocation \<Rightarrow> pystr \<Rightarrow> state \<Rightarrow> error option \<times> state" where
  "record_completion env invoc timestamp_analysis_start st =
     (let timestamp_analysis_complete = isoformat (fst (datetime_now env st));
          st1 = snd (datetime_now env st);
          analysis_complete_path = os_path_join (inv_output_dir invoc) (ascii ''analysis_complete.json'');
          analysis_complete =
            [((ascii ''timestamp_analysis_start''), timestamp_analysis_start),
             ((ascii ''timestamp_analysis_complete''), timestamp_analysis_complete)]
      in case write_error env analysis_complete_path (files st1) of
           Some fs' \<Rightarrow>
             (None, logging Error (DeleteAnalysisWorkDirFailed (inv_run_id invoc) (inv_work_dir invoc))
                      (st1\<lparr>files := fs'\<rparr>))
         | None \<Rightarrow>
             (let st2 = st1\<lparr>files := (files st1)(analysis_complete_path \<mapsto> File analysis_complete)\<rparr>;
                  st3 = logging Info
                          (AnalysisCompleted (inv_run_id invoc) (py_join (ascii '' '') (inv_command invoc))) st2;
                  st4 = st3\<lparr>files := rmtree_ignore_errors env (inv_work_dir invoc) (files st3)\<rparr>
              in (None, logging Info
                          (AnalysisWorkDirDeleted (inv_run_id invoc) (inv_work_dir invoc)) st4)))"

text \<open>The \<^verbatim>\<open>try\<close> block with its two handlers.\<close>

definition run_pipeline_command :: "os_env \<Rightarrow> invocation \<Rightarrow> error option \<times> state" where
  "run_pipeline_command env invoc =
     (let st = inv_state invoc;
          timestamp_analysis_start = isoformat (fst (datetime_now env st));
          st1 = snd (datetime_now env st);
          outcome = subprocess_run env (length (executed st1)) (inv_command invoc) (files st1);
          st2 = st1\<lparr>files := snd outcome, executed := executed st1 @ [inv_command invoc]\<rparr>
      in case fst outcome of
           SpawnValueError \<Rightarrow> (Some ValueError, st2)
         | SpawnOSError \<Rightarrow>
             (None, logging Error
                      (DeleteAnalysisWorkDirFailed (inv_run_id invoc) (inv_work_dir invoc)) st2)
         | Exited status \<Rightarrow>
             if status \<noteq> 0
             then (None, logging Error
                           (AnalysisFailed (inv_run_id invoc) (py_join (ascii '' '') (inv_command invoc))) st2)
             else record_completion env invoc timestamp_analysis_start st2)"

text \<open>One pass of the loop over \<^verbatim>\<open>config['pipelines']\<close>.\<close>

definition analyze_pipeline ::
  "os_env \<Rightarrow> config \<Rightarrow> pipeline \<Rightarrow> run \<Rightarrow> state \<Rightarrow> error option \<times> run \<times> state" where
  "analyze_pipeline env config pipeline run st =
     (case prepare_invocation env config pipeline run st of
        Inl (e, run', st') \<Rightarrow> (Some e, run', st')
      | Inr invoc \<Rightarrow>
          (fst (run_pipeline_command env invoc), inv_run invoc, snd (run_pipeline_command env invoc)))"

fun analyze_pipelines ::
  "os_env \<Rightarrow> config \<Rightarrow> pipeline list \<Rightarrow> run \<Rightarrow> state \<Rightarrow> error option \<times> run \<times> state" where
  "analyze_pipelines env config [] run st = (None, run, st)"
| "analyze_pipelines env config (pipeline # rest) run st =
     (case analyze_pipeline env config pipeline run st of
        (Some e, run', st') \<Rightarrow> (Some e, run', st')
      | (None, run', st') \<Rightarrow> analyze_pipelines env config rest run' st')"

definition analyze_run :: "os_env \<Rightarrow> config \<Rightarrow> run \<Rightarrow> state \<Rightarrow> error option \<times> run \<times> state" where
  "analyze_run env config run st = analyze_pipelines env config (pipelines config) run st"

section \<open>A concrete installation\<close>

text \<open>
  One configuration, one run directory tree and one run of the external engine, on which
  the definitions above are evaluated. The engine creates its work directory; its exit
  status and the two possible I/O failures are parameters.
\<close>

definition demo_pipeline :: pipeline where
  "demo_pipeline =
     \<lparr>pipeline_name = PStr (ascii ''BCCDC-PHL/basic_nanopore_qc''),
      pipeline_version = PStr (ascii ''0.1.2''),
      pipeline_parameters =
        [((ascii ''fastq_input''), PNone), ((ascii ''outdir''), PNone), ((ascii ''min_length''), PInt 500)]\<rparr>"

definition demo_second_pipeline :: pipeline where
  "demo_second_pipeline =
     \<lparr>pipeline_name = PStr (ascii ''BCCDC-PHL/taxon-abundance''),
      pipeline_version = PStr (ascii ''1.0''),
      pipeline_parameters = [((ascii ''fastq_input''), PNone), ((ascii ''outdir''), PNone)]\<rparr>"

definition demo_unqualified_pipeline :: pipeline where
  "demo_unqualified_pipeline =
     \<lparr>pipeline_name = PStr (ascii ''basic_nanopore_qc''),
      pipeline_version = PStr (ascii ''0.1.2''),
      pipeline_parameters = []\<rparr>"

definition demo_config :: "pipeline list \<Rightarrow> config" where
  "demo_config ps =
     \<lparr>fastq_by_run_dir = (ascii ''/data/runs''),
      analysis_output_dir = (ascii ''/data/out''),
      analysis_work_dir = (ascii ''/data/work''),
      pipelines = ps,
      excluded_runs = Some [(ascii ''20230102_1200_X1_ABCDEFGH_abcdefgh'')],
      notification_email_addresses = None,
      send_notification_emails = None\<rparr>"

text \<open>
  The character database, as far as it is used below: the 71 characters of the Latin-1
  range that are alphanumeric (letters such as \<open>U+00E9\<close>, superscript digits and
  fractions), none of them decimal, and the Arabic-Indic digits \<open>U+0660\<close> to \<open>U+0669\<close>.
\<close>

definition demo_unicode :: unicode_db where
  "demo_unicode =
     \<lparr>isdecimal = (\<lambda>c. 1632 \<le> code_point c \<and> code_point c \<le> 1641),
      isalnum = (\<lambda>c. code_point c \<in> set [170, 178, 179, 181, 185, 186, 188, 189, 190]
                     \<or> (192 \<le> code_point c \<and> code_point c \<le> 214)
                     \<or> (216 \<le> code_point c \<and> code_point c \<le> 246)
                     \<or> (248 \<le> code_point c \<and> code_point c \<le> 255)
                     \<or> (1632 \<le> code_point c \<and> code_point c \<le> 1641))\<rparr>"

text \<open>A run directory whose flow-cell position is written with the letter \<open>U+00E9\<close>.\<close>

definition demo_accented_run_id :: pystr where
  "demo_accented_run_id =
     (ascii ''20230109_1300_P2S_1-'') @ [Ch (CHR 0xE9)] @ (ascii ''_ABCDEFGH_abcdefgh'')"

definition demo_subdirs :: "dir_entry list" where
  "demo_subdirs =
     [\<lparr>entry_name = (ascii ''20230101_1200_X1_ABCDEFGH_abcdefgh''), entry_is_dir = Some True\<rparr>,
      \<lparr>entry_name = (ascii ''20230101_1300_P2S_00123-A_ABCDEFGH_abcdefgh''),
         entry_is_dir = Some True\<rparr>,
      \<lparr>entry_name = (ascii ''20230102_1200_X1_ABCDEFGH_abcdefgh''), entry_is_dir = Some True\<rparr>,
      \<lparr>entry_name = (ascii ''20230103_1200_X1_ABCDEFGH_abcdefgh''), entry_is_dir = Some True\<rparr>,
      \<lparr>entry_name = (ascii ''notes''), entry_is_dir = Some True\<rparr>,
      \<lparr>entry_name = demo_accented_run_id, entry_is_dir = Some True\<rparr>]"

definition demo_files :: filesystem where
  "demo_files =
     [(ascii ''/data/runs/20230101_1200_X1_ABCDEFGH_abcdefgh/symlinks_complete.json'') \<mapsto> File [],
      (ascii ''/data/runs/20230102_1200_X1_ABCDEFGH_abcdefgh/symlinks_complete.json'') \<mapsto> File [],
      (ascii ''/data/runs/20230103_1200_X1_ABCDEFGH_abcdefgh/symlinks_complete.json'') \<mapsto> File [],
      (ascii ''/data/runs/notes/symlinks_complete.json'') \<mapsto> File [],
      ((ascii ''/data/runs/'') @ demo_accented_run_id @ (ascii ''/symlinks_complete.json''))
        \<mapsto> File [],
      (ascii ''/data/out/20230103_1200_X1_ABCDEFGH_abcdefgh'') \<mapsto> Dir]"

text \<open>
  The same tree with a symbolic link that leads nowhere where the output of the first
  run would be.
\<close>

definition demo_files_dangling :: filesystem where
  "demo_files_dangling =
     demo_files((ascii ''/data/out/20230101_1200_X1_ABCDEFGH_abcdefgh'') \<mapsto> BrokenLink)"

definition demo_clock :: "nat \<Rightarrow> datetime" where
  "demo_clock n =
     \<lparr>dt_year = 2023, dt_month = 1, dt_day = 1, dt_hour = 12, dt_minute = n,
      dt_second = 7, dt_microsecond = 250\<rparr>"

definition demo_work_dir :: pystr where
  "demo_work_dir = (ascii ''/data/work/work-20230101_1200_X1_ABCDEFGH_abcdefgh-20230101120007'')"

definition demo_marker_path :: pystr where
  "demo_marker_path =
     (ascii ''/data/out/20230101_1200_X1_ABCDEFGH_abcdefgh/basic-nanopore-qc-0.1-output/analysis_complete.json'')"

definition demo_env :: "int \<Rightarrow> bool \<Rightarrow> bool \<Rightarrow> os_env" where
  "demo_env status write_fails rmtree_fails =
     \<lparr>getcwd = (ascii ''/home/analyst''),
      home = (ascii ''/home/analyst''),
      unicode = demo_unicode,
      scandir = (\<lambda>p. if p = (ascii ''/data/runs'')
                     then Some \<lparr>listed = demo_subdirs, listing_fails = False\<rparr>
                     else None),
      now = demo_clock,
      subprocess_run = (\<lambda>n cmd fs. (Exited status, fs(demo_work_dir \<mapsto> Dir))),
      write_error = (\<lambda>p fs. if write_fails then Some fs else None),
      rmtree_error = (\<lambda>p fs. if rmtree_fails then Some fs else None)\<rparr>"


definition demo_run :: run where
  "demo_run =
     [((ascii ''run_dir''), (ascii ''/data/runs/20230101_1200_X1_ABCDEFGH_abcdefgh'')),
      ((ascii ''sequencing_run_id''), (ascii ''20230101_1200_X1_ABCDEFGH_abcdefgh'')),
      ((ascii ''instrument_type''), (ascii ''gridion''))]"

definition demo_state :: state where
  "demo_state = \<lparr>files = demo_files, logged = [], clock_reads = 0, executed = []\<rparr>"

text \<open>The dispatch of the first pipeline against the run, up to the \<^verbatim>\<open>try\<close> block.\<close>

definition demo_invocation :: "os_env \<Rightarrow> invocation" where
  "demo_invocation env =
     projr (prepare_invocation env (demo_config [demo_pipeline]) demo_pipeline demo_run demo_state)"

section \<open>Literals\<close>

lemma ascii_char_inj [simp]: "ascii_char a = ascii_char b \<longleftrightarrow> a = b"
  by (simp add: ascii_char_def)

lemma ascii_inj [simp]: "ascii a = ascii b \<longleftrightarrow> a = b"
  unfolding ascii_def by (rule inj_map_eq_map) (simp add: inj_on_def)

lemma ascii_Nil [simp]: "ascii [] = []"
  by (simp add: ascii_def)

lemma ascii_Cons: "ascii (c # s) = ascii_char c # ascii s"
  by (simp add: ascii_def)

lemma length_ascii [simp]: "length (ascii s) = length s"
  by (simp add: ascii_def)

lemma ascii_char_mem [simp]: "ascii_char c \<in> set (ascii s) \<longleftrightarrow> c \<in> set s"
  by (auto simp: ascii_def)

lemma ascii_append: "ascii a @ ascii b = ascii (a @ b)"
  by (simp add: ascii_def)

lemma ascii_append_assoc: "ascii a @ ascii b @ rest = ascii (a @ b) @ rest"
  by (simp add: ascii_def)

section \<open>Run discovery: properties\<close>

lemma match_times_split:
  "match_times db a n s = Some r \<Longrightarrow> \<exists>p. s = p @ r \<and> length p = n"
proof (induction db a n s rule: match_times.induct)
  case (1 db a s)
  then show ?case by simp
next
  case (2 db a n)
  then show ?case by simp
next
  case (3 db a n c cs)
  then obtain p where "cs = p @ r" "length p = n"
    by (auto split: if_splits)
  then have "c # cs = (c # p) @ r \<and> length (c # p) = Suc n" by simp
  then show ?case by blast
qed

lemma match_items_Times:
  assumes "match_items db (Times a n # its) s \<noteq> []"
  shows "\<exists>p r. s = p @ r \<and> length p = n \<and> match_items db its r \<noteq> []"
proof -
  from assms obtain r where r: "match_times db a n s = Some r" "match_items db its r \<noteq> []"
    by (auto split: option.splits)
  from match_times_split [OF r(1)] r(2) show ?thesis by blast
qed

lemma match_items_One:
  assumes "match_items db (One a # its) s \<noteq> []"
  shows "\<exists>c r. s = c # r \<and> match_atom db a c \<and> match_items db its r \<noteq> []"
  using assms by (cases s) (auto split: if_splits)

lemma date_time_prefix_char14:
  assumes "match_items db (Times d1 8 # One u1 # Times d2 4 # One u2 # One (Lit x) # rest) s \<noteq> []"
  shows "length s > 14 \<and> s ! 14 = x"
proof -
  from match_items_Times [OF assms] obtain p1 r1 where 1: "s = p1 @ r1" "length p1 = 8"
    and m1: "match_items db (One u1 # Times d2 4 # One u2 # One (Lit x) # rest) r1 \<noteq> []"
    by blast
  from match_items_One [OF m1] obtain c2 r2 where 2: "r1 = c2 # r2"
    and m2: "match_items db (Times d2 4 # One u2 # One (Lit x) # rest) r2 \<noteq> []"
    by blast
  from match_items_Times [OF m2] obtain p3 r3 where 3: "r2 = p3 @ r3" "length p3 = 4"
    and m3: "match_items db (One u2 # One (Lit x) # rest) r3 \<noteq> []"
    by blast
  from match_items_One [OF m3] obtain c4 r4 where 4: "r3 = c4 # r4"
    and m4: "match_items db (One (Lit x) # rest) r4 \<noteq> []"
    by blast
  from match_items_One [OF m4] obtain c5 r5 where 5: "r4 = c5 # r5" "match_atom db (Lit x) c5"
    by blast
  have s: "s = (p1 @ c2 # p3 @ [c4]) @ c5 # r5" using 1 2 3 4 5 by simp
  have l: "length (p1 @ c2 # p3 @ [c4]) = 14" using 1 3 by simp
  have "length s = 14 + Suc (length r5)" using l by (subst s) (simp del: append_assoc)
  then have "length s > 14" by simp
  moreover have "s ! 14 = c5" using nth_append_length [of "p1 @ c2 # p3 @ [c4]" c5 r5] s l by simp
  ultimately show ?thesis using 5 by simp
qed

lemma gridion_char14:
  assumes "re_match db gridion_run_id_regex s"
  shows "length s > 14 \<and> s ! 14 = ascii_char CHR ''X''"
  using assms unfolding re_match_def gridion_run_id_regex_def
  by (rule date_time_prefix_char14)

lemma promethion_char14:
  assumes "re_match db promethion_run_id_regex s"
  shows "length s > 14 \<and> s ! 14 = ascii_char CHR ''P''"
  using assms unfolding re_match_def promethion_run_id_regex_def
  by (rule date_time_prefix_char14)

lemma patterns_exclusive:
  "\<not> (re_match db gridion_run_id_regex s \<and> re_match db promethion_run_id_regex s)"
  using gridion_char14 [of db s] promethion_char14 [of db s] by auto

lemma conditions_all_iff:
  "list_all (\<lambda>b. b)
     (map snd (conditions_checked db fs config check_symlinks_complete subdir is_directory)) =
     (is_directory
      \<and> (re_match db gridion_run_id_regex (entry_name subdir)
           \<or> re_match db promethion_run_id_regex (entry_name subdir))
      \<and> \<not> os_path_exists fs (os_path_join (analysis_output_dir config) (entry_name subdir))
      \<and> (\<forall>excluded. excluded_runs config = Some excluded \<longrightarrow> entry_name subdir \<notin> set excluded)
      \<and> (check_symlinks_complete \<longrightarrow>
            os_path_exists fs
              (os_path_join (os_path_join (fastq_by_run_dir config) (entry_name subdir))
                 (ascii ''symlinks_complete.json''))))"
  by (auto simp: conditions_checked_def Let_def entry_path_def split: option.splits)

lemma visit_subdir_yield:
  "snd (visit_subdir env config check_symlinks_complete subdir is_directory fs) =
     (if is_directory
         \<and> (re_match (unicode env) gridion_run_id_regex (entry_name subdir)
              \<or> re_match (unicode env) promethion_run_id_regex (entry_name subdir))
         \<and> \<not> os_path_exists fs (os_path_join (analysis_output_dir config) (entry_name subdir))
         \<and> (\<forall>excluded. excluded_runs config = Some excluded \<longrightarrow> entry_name subdir \<notin> set excluded)
         \<and> (check_symlinks_complete \<longrightarrow>
               os_path_exists fs
                 (os_path_join (os_path_join (fastq_by_run_dir config) (entry_name subdir))
                    (ascii ''symlinks_complete.json'')))
      then Some [(ascii ''run_dir'',
                  abspath (getcwd env) (os_path_join (fastq_by_run_dir config) (entry_name subdir))),
                 (ascii ''sequencing_run_id'', entry_name subdir),
                 (ascii ''instrument_type'', instrument_type_of (unicode env) (entry_name subdir))]
      else None)"
  unfolding visit_subdir_def Let_def conditions_all_iff
  by (simp add: entry_path_def)


lemma iterate_subdirs_yielded:
  "i < length (fst (iterate_subdirs env config chk subdirs fails))
   \<Longrightarrow> i < length subdirs
       \<and> (\<exists>d. entry_is_dir (subdirs ! i) = Some d
              \<and> fst (iterate_subdirs env config chk subdirs fails) ! i
                  = visit_subdir env config chk (subdirs ! i) d)"
proof (induction subdirs arbitrary: i)
  case Nil
  then show ?case by simp
next
  case (Cons subdir rest)
  show ?case
  proof (cases "entry_is_dir subdir")
    case None
    with Cons.prems show ?thesis by simp
  next
    case (Some d0)
    show ?thesis
    proof (cases i)
      case 0
      with Some show ?thesis by simp
    next
      case (Suc k)
      with Cons.prems Some
      have "k < length (fst (iterate_subdirs env config chk rest fails))" by simp
      from Cons.IH [OF this] Some Suc show ?thesis by simp
    qed
  qed
qed

lemma iterate_subdirs_complete:
  "\<forall>j<length subdirs. entry_is_dir (subdirs ! j) \<noteq> None
   \<Longrightarrow> length (fst (iterate_subdirs env config chk subdirs fails)) = length subdirs
       \<and> snd (iterate_subdirs env config chk subdirs fails)
           = (if fails then Some OSError else None)"
proof (induction subdirs)
  case Nil
  then show ?case by simp
next
  case (Cons subdir rest)
  from Cons.prems have "entry_is_dir ((subdir # rest) ! 0) \<noteq> None" by blast
  then obtain d0 where d0: "entry_is_dir subdir = Some d0" by auto
  have "\<forall>j<length rest. entry_is_dir (rest ! j) \<noteq> None"
  proof (intro allI impI)
    fix j assume "j < length rest"
    then have "Suc j < length (subdir # rest)" by simp
    with Cons.prems have "entry_is_dir ((subdir # rest) ! Suc j) \<noteq> None" by blast
    then show "entry_is_dir (rest ! j) \<noteq> None" by simp
  qed
  from Cons.IH [OF this] d0 show ?case by simp
qed


lemma demo_scandir:
  "scandir (demo_env status w r) (fastq_by_run_dir (demo_config ps))
     = Some \<lparr>listed = demo_subdirs, listing_fails = False\<rparr>"
  by (simp add: demo_env_def demo_config_def)

lemma demo_is_dir: "\<forall>j<length demo_subdirs. entry_is_dir (demo_subdirs ! j) \<noteq> None"
proof -
  have "\<forall>e \<in> set demo_subdirs. entry_is_dir e \<noteq> None"
    by (auto simp: demo_subdirs_def)
  then show ?thesis by simp
qed

lemma demo_yields:
  "length (fst (find_run_dirs (demo_env status w r) (demo_config ps) chk)) = 6
   \<and> snd (find_run_dirs (demo_env status w r) (demo_config ps) chk) = None"
proof -
  have "length demo_subdirs = 6" by (simp add: demo_subdirs_def)
  with iterate_subdirs_complete [OF demo_is_dir] show ?thesis
    by (simp add: find_run_dirs_def demo_scandir)
qed

lemma demo_gridion:
  "re_match demo_unicode gridion_run_id_regex (ascii ''20230101_1200_X1_ABCDEFGH_abcdefgh'')"
  by code_simp

lemma demo_promethion:
  "re_match demo_unicode promethion_run_id_regex
     (ascii ''20230101_1300_P2S_00123-A_ABCDEFGH_abcdefgh'')"
  by code_simp

lemma demo_accented: "re_match demo_unicode promethion_run_id_regex demo_accented_run_id"
  by code_simp

lemma demo_neither:
  "\<not> re_match demo_unicode gridion_run_id_regex (ascii ''notes'')
   \<and> \<not> re_match demo_unicode promethion_run_id_regex (ascii ''notes'')"
  by code_simp

lemma demo_unicode_env: "unicode (demo_env status w r) = demo_unicode"
  by (simp add: demo_env_def)



text \<open>
  C4 (amended). A run for whose id \<^verbatim>\<open>os.path.exists\<close> finds an entry under the output
  root (a file or a directory, or a symbolic link that leads to one) is never yielded as
  ready, whatever the other conditions are. The check reads the run id and the output
  root only: the configured pipelines play no part in it.
\<close>

theorem already_initiated_never_ready:
  assumes "scandir env (fastq_by_run_dir config) = Some subdirs"
      and "i < length (fst (find_run_dirs env (config\<lparr>pipelines := ps\<rparr>) check_symlinks_complete))"
      and "os_path_exists fs
             (os_path_join (analysis_output_dir config) (entry_name (listed subdirs ! i)))"
  shows "i < length (listed subdirs)
         \<and> snd ((fst (find_run_dirs env (config\<lparr>pipelines := ps\<rparr>) check_symlinks_complete) ! i)
                  fs) = None"
proof -
  let ?config = "config\<lparr>pipelines := ps\<rparr>"
  have f: "find_run_dirs env ?config check_symlinks_complete
             = iterate_subdirs env ?config check_symlinks_complete (listed subdirs)
                 (listing_fails subdirs)"
    using assms(1) by (simp add: find_run_dirs_def)
  from iterate_subdirs_yielded [OF assms(2) [unfolded f]]
  obtain d where l: "i < length (listed subdirs)"
    and v: "fst (find_run_dirs env ?config check_symlinks_complete) ! i
              = visit_subdir env ?config check_symlinks_complete (listed subdirs ! i) d"
    unfolding f by blast
  show ?thesis
    unfolding v visit_subdir_yield using l assms(3) by simp
qed

theorem already_initiated_never_ready_witness:
  "scandir (demo_env 0 False False) (fastq_by_run_dir (demo_config [demo_pipeline]))
     = Some \<lparr>listed = demo_subdirs, listing_fails = False\<rparr>
   \<and> 3 < length (fst (find_run_dirs (demo_env 0 False False)
                        ((demo_config [demo_pipeline])\<lparr>pipelines := [demo_second_pipeline]\<rparr>)
                        False))
   \<and> os_path_exists demo_files
       (os_path_join (analysis_output_dir (demo_config [demo_pipeline]))
          (entry_name (listed \<lparr>listed = demo_subdirs, listing_fails = False\<rparr> ! 3)))
   \<and> 3 < length (listed \<lparr>listed = demo_subdirs, listing_fails = False\<rparr>)
   \<and> snd ((fst (find_run_dirs (demo_env 0 False False)
                  ((demo_config [demo_pipeline])\<lparr>pipelines := [demo_second_pipeline]\<rparr>)
                  False) ! 3) demo_files) = None"
proof -
  have p: "(demo_config [demo_pipeline])\<lparr>pipelines := [demo_second_pipeline]\<rparr>
             = demo_config [demo_second_pipeline]"
    by (simp add: demo_config_def)
  have l: "3 < length (fst (find_run_dirs (demo_env 0 False False)
                        ((demo_config [demo_pipeline])\<lparr>pipelines := [demo_second_pipeline]\<rparr>)
                        False))"
    unfolding p using demo_yields [of 0 False False "[demo_second_pipeline]" False] by simp
  have e: "os_path_exists demo_files
       (os_path_join (analysis_output_dir (demo_config [demo_pipeline]))
          (entry_name (listed \<lparr>listed = demo_subdirs, listing_fails = False\<rparr> ! 3)))"
    by code_simp
  note t = already_initiated_never_ready
             [OF demo_scandir [of 0 False False "[demo_pipeline]"] l e]
  show ?thesis
    by (intro conjI) (rule demo_scandir l e t [THEN conjunct1] t [THEN conjunct2])+
qed

text \<open>
  C4 as stated fails when the entry under the output root is a symbolic link that leads
  nowhere: the entry is there, \<^verbatim>\<open>os.path.exists\<close> answers \<^verbatim>\<open>False\<close>, and the run is
  yielded as ready.
\<close>

theorem dangling_link_under_output_root_still_ready:
  "demo_files_dangling
     (os_path_join (analysis_output_dir (demo_config [demo_pipeline]))
        (ascii ''20230101_1200_X1_ABCDEFGH_abcdefgh'')) = Some BrokenLink
   \<and> entry_name (demo_subdirs ! 0) = ascii ''20230101_1200_X1_ABCDEFGH_abcdefgh''
   \<and> 0 < length (fst (find_run_dirs (demo_env 0 False False) (demo_config [demo_pipeline]) True))
   \<and> snd ((fst (find_run_dirs (demo_env 0 False False) (demo_config [demo_pipeline]) True) ! 0)
            demo_files_dangling)
       = Some [(ascii ''run_dir'', ascii ''/data/runs/20230101_1200_X1_ABCDEFGH_abcdefgh''),
               (ascii ''sequencing_run_id'', ascii ''20230101_1200_X1_ABCDEFGH_abcdefgh''),
               (ascii ''instrument_type'', ascii ''gridion'')]"
proof -
  have 1: "demo_files_dangling
     (os_path_join (analysis_output_dir (demo_config [demo_pipeline]))
        (ascii ''20230101_1200_X1_ABCDEFGH_abcdefgh'')) = Some BrokenLink"
    by code_simp
  have 2: "entry_name (demo_subdirs ! 0) = ascii ''20230101_1200_X1_ABCDEFGH_abcdefgh''"
    by (simp add: demo_subdirs_def)
  have 3: "0 < length (fst (find_run_dirs (demo_env 0 False False)
                               (demo_config [demo_pipeline]) True))"
    using demo_yields [of 0 False False "[demo_pipeline]" True] by simp
  have 4: "snd ((fst (find_run_dirs (demo_env 0 False False) (demo_config [demo_pipeline]) True)
                   ! 0) demo_files_dangling)
       = Some [(ascii ''run_dir'', ascii ''/data/runs/20230101_1200_X1_ABCDEFGH_abcdefgh''),
               (ascii ''sequencing_run_id'', ascii ''20230101_1200_X1_ABCDEFGH_abcdefgh''),
               (ascii ''instrument_type'', ascii ''gridion'')]"
    by code_simp
  show ?thesis
    by (intro conjI) (rule 1 2 3 4)+
qed

text \<open>
  C6. A name that matches the GridION pattern is classified \<open>gridion\<close>, whether or not
  it matches the other pattern; a name that matches the PromethION pattern is classified
  \<open>promethion\<close> (no name matches both); a name that matches neither is classified
  \<open>unknown\<close> and is never yielded as ready. A descriptor that is yielded carries the
  classification of its name. This holds for names of any characters and for any
  character database.
\<close>

theorem instrument_type_by_pattern:
  "(re_match db gridion_run_id_regex run_id \<longrightarrow> instrument_type_of db run_id = ascii ''gridion'')
   \<and> (re_match db promethion_run_id_regex run_id
        \<longrightarrow> instrument_type_of db run_id = ascii ''promethion'')
   \<and> (\<not> re_match db gridion_run_id_regex run_id \<and> \<not> re_match db promethion_run_id_regex run_id
        \<longrightarrow> instrument_type_of db run_id = ascii ''unknown''
            \<and> (\<forall>(env::os_env) config check_symlinks_complete (subdir::dir_entry) is_directory fs.
                  unicode env = db \<and> entry_name subdir = run_id
                  \<longrightarrow> snd (visit_subdir env config check_symlinks_complete subdir
                             is_directory fs) = None))
   \<and> (\<forall>(env::os_env) config check_symlinks_complete (subdir::dir_entry) is_directory fs run.
         unicode env = db \<and> entry_name subdir = run_id
         \<and> snd (visit_subdir env config check_symlinks_complete subdir is_directory fs)
             = Some run
         \<longrightarrow> map_of run (ascii ''instrument_type'') = Some (instrument_type_of db run_id))"
proof (intro conjI impI allI)
  assume "re_match db gridion_run_id_regex run_id"
  then show "instrument_type_of db run_id = ascii ''gridion''"
    by (simp add: instrument_type_of_def)
next
  assume p: "re_match db promethion_run_id_regex run_id"
  with patterns_exclusive [of db run_id] have "\<not> re_match db gridion_run_id_regex run_id"
    by blast
  with p show "instrument_type_of db run_id = ascii ''promethion''"
    by (simp add: instrument_type_of_def)
next
  assume "\<not> re_match db gridion_run_id_regex run_id
            \<and> \<not> re_match db promethion_run_id_regex run_id"
  then show "instrument_type_of db run_id = ascii ''unknown''"
    by (simp add: instrument_type_of_def)
next
  fix config check_symlinks_complete is_directory fs and env :: os_env and subdir :: dir_entry
  assume "\<not> re_match db gridion_run_id_regex run_id
            \<and> \<not> re_match db promethion_run_id_regex run_id"
    and "unicode env = db \<and> entry_name subdir = run_id"
  then show "snd (visit_subdir env config check_symlinks_complete subdir is_directory fs) = None"
    by (simp add: visit_subdir_yield)
next
  fix config check_symlinks_complete is_directory fs run and env :: os_env
    and subdir :: dir_entry
  assume "unicode env = db \<and> entry_name subdir = run_id
    \<and> snd (visit_subdir env config check_symlinks_complete subdir is_directory fs) = Some run"
  then show "map_of run (ascii ''instrument_type'') = Some (instrument_type_of db run_id)"
    by (auto simp: visit_subdir_yield split: if_splits)
qed

theorem instrument_type_by_pattern_witness:
  "re_match demo_unicode gridion_run_id_regex (ascii ''20230101_1200_X1_ABCDEFGH_abcdefgh'')
   \<and> instrument_type_of demo_unicode (ascii ''20230101_1200_X1_ABCDEFGH_abcdefgh'')
       = ascii ''gridion''
   \<and> re_match demo_unicode promethion_run_id_regex
        (ascii ''20230101_1300_P2S_00123-A_ABCDEFGH_abcdefgh'')
   \<and> instrument_type_of demo_unicode (ascii ''20230101_1300_P2S_00123-A_ABCDEFGH_abcdefgh'')
       = ascii ''promethion''
   \<and> re_match demo_unicode promethion_run_id_regex demo_accented_run_id
   \<and> instrument_type_of demo_unicode demo_accented_run_id = ascii ''promethion''
   \<and> \<not> re_match demo_unicode gridion_run_id_regex (ascii ''notes'')
   \<and> \<not> re_match demo_unicode promethion_run_id_regex (ascii ''notes'')
   \<and> instrument_type_of demo_unicode (ascii ''notes'') = ascii ''unknown''
   \<and> snd (visit_subdir (demo_env 0 False False) (demo_config [demo_pipeline]) True
            \<lparr>entry_name = ascii ''notes'', entry_is_dir = Some True\<rparr> True demo_files) = None
   \<and> snd (visit_subdir (demo_env 0 False False) (demo_config [demo_pipeline]) True
            \<lparr>entry_name = demo_accented_run_id, entry_is_dir = Some True\<rparr> True demo_files)
       = Some [(ascii ''run_dir'', ascii ''/data/runs/'' @ demo_accented_run_id),
               (ascii ''sequencing_run_id'', demo_accented_run_id),
               (ascii ''instrument_type'', ascii ''promethion'')]
   \<and> map_of [(ascii ''run_dir'', ascii ''/data/runs/'' @ demo_accented_run_id),
             (ascii ''sequencing_run_id'', demo_accented_run_id),
             (ascii ''instrument_type'', ascii ''promethion'')] (ascii ''instrument_type'')
       = Some (instrument_type_of demo_unicode demo_accented_run_id)"
proof -
  let ?env = "demo_env 0 False False"
  let ?run = "[(ascii ''run_dir'', ascii ''/data/runs/'' @ demo_accented_run_id),
               (ascii ''sequencing_run_id'', demo_accented_run_id),
               (ascii ''instrument_type'', ascii ''promethion'')]"
  have v: "snd (visit_subdir ?env (demo_config [demo_pipeline]) True
            \<lparr>entry_name = demo_accented_run_id, entry_is_dir = Some True\<rparr> True demo_files)
       = Some ?run"
    by code_simp
  note g = instrument_type_by_pattern
             [of demo_unicode "ascii ''20230101_1200_X1_ABCDEFGH_abcdefgh''"]
  note p = instrument_type_by_pattern
             [of demo_unicode "ascii ''20230101_1300_P2S_00123-A_ABCDEFGH_abcdefgh''"]
  note a = instrument_type_by_pattern [of demo_unicode demo_accented_run_id]
  note n = instrument_type_by_pattern [of demo_unicode "ascii ''notes''"]
  have 1: "instrument_type_of demo_unicode (ascii ''20230101_1200_X1_ABCDEFGH_abcdefgh'')
             = ascii ''gridion''"
    using g demo_gridion by (elim conjE) (rule mp)
  have 2: "instrument_type_of demo_unicode (ascii ''20230101_1300_P2S_00123-A_ABCDEFGH_abcdefgh'')
             = ascii ''promethion''"
    using p demo_promethion by (elim conjE) (rule mp)
  have 3: "instrument_type_of demo_unicode demo_accented_run_id = ascii ''promethion''"
    using a demo_accented by (elim conjE) (rule mp)
  have 4: "instrument_type_of demo_unicode (ascii ''notes'') = ascii ''unknown''
           \<and> (\<forall>(env::os_env) config check_symlinks_complete (subdir::dir_entry) is_directory fs.
                  unicode env = demo_unicode \<and> entry_name subdir = ascii ''notes''
                  \<longrightarrow> snd (visit_subdir env config check_symlinks_complete subdir
                             is_directory fs) = None)"
    using n demo_neither by (elim conjE) (rule mp, assumption, rule conjI)
  from 4 have 5: "snd (visit_subdir ?env (demo_config [demo_pipeline]) True
            \<lparr>entry_name = ascii ''notes'', entry_is_dir = Some True\<rparr> True demo_files) = None"
    by (simp add: demo_unicode_env)
  have 6: "map_of ?run (ascii ''instrument_type'')
             = Some (instrument_type_of demo_unicode demo_accented_run_id)"
  proof -
    from a have "\<forall>(env::os_env) config check_symlinks_complete (subdir::dir_entry) is_directory fs run.
         unicode env = demo_unicode \<and> entry_name subdir = demo_accented_run_id
         \<and> snd (visit_subdir env config check_symlinks_complete subdir is_directory fs)
             = Some run
         \<longrightarrow> map_of run (ascii ''instrument_type'')
               = Some (instrument_type_of demo_unicode demo_accented_run_id)"
      by (elim conjE)
    then have "unicode ?env = demo_unicode
         \<and> entry_name \<lparr>entry_name = demo_accented_run_id, entry_is_dir = Some True\<rparr>
             = demo_accented_run_id
         \<and> snd (visit_subdir ?env (demo_config [demo_pipeline]) True
            \<lparr>entry_name = demo_accented_run_id, entry_is_dir = Some True\<rparr> True demo_files)
             = Some ?run
         \<longrightarrow> map_of ?run (ascii ''instrument_type'')
               = Some (instrument_type_of demo_unicode demo_accented_run_id)"
      by blast
    with v show ?thesis by (simp add: demo_unicode_env)
  qed
  show ?thesis
    using demo_gridion demo_promethion demo_accented demo_neither 1 2 3 4 5 6 v
    by (intro conjI) simp_all
qed

section \<open>Analysis dispatch: properties\<close>

lemma prepare_invocation_Inr:
  assumes "prepare_invocation env config pipeline run st = Inr invoc"
  obtains short_name minor_version analysis_run_id run_dir command where
    "pipeline_short_name pipeline = Inr short_name"
    "pipeline_minor_version pipeline = Inr minor_version"
    "map_of run (ascii ''sequencing_run_id'') = Some analysis_run_id"
    "map_of run (ascii ''run_dir'') = Some run_dir"
    "inv_run invoc =
       AList.update (ascii ''outdir'') (pipeline_output_dir config analysis_run_id short_name minor_version)
         (AList.update (ascii ''fastq_input'') run_dir run)"
    "inv_run_id invoc = analysis_run_id"
    "inv_output_dir invoc = pipeline_output_dir config analysis_run_id short_name minor_version"
    "inv_work_dir invoc =
       pipeline_work_dir env config analysis_run_id (strftime (now env (clock_reads st)))"
    "pipeline_command env config pipeline (inv_run invoc) (inv_work_dir invoc)
       (pipeline_trace_path env config analysis_run_id short_name minor_version) = Inr command"
    "list_all is_str command"
    "inv_command invoc = map py_str command"
    "inv_state invoc =
       logging Info (AnalysisStarted analysis_run_id (py_join (ascii '' '') (map py_str command)))
         (st\<lparr>clock_reads := Suc (clock_reads st)\<rparr>)"
proof -
  note d = prepare_invocation_def Let_def datetime_now_def
  from assms obtain short_name where 1: "pipeline_short_name pipeline = Inr short_name"
    by (cases "pipeline_short_name pipeline") (simp_all add: d)
  from assms 1 obtain minor_version where 2: "pipeline_minor_version pipeline = Inr minor_version"
    by (cases "pipeline_minor_version pipeline") (simp_all add: d)
  from assms 1 2 obtain analysis_run_id where 3: "map_of run (ascii ''sequencing_run_id'') = Some analysis_run_id"
    by (cases "map_of run (ascii ''sequencing_run_id'')") (simp_all add: d)
  from assms 1 2 3 obtain run_dir where 4: "map_of run (ascii ''run_dir'') = Some run_dir"
    by (cases "map_of run (ascii ''run_dir'')") (simp_all add: d)
  let ?out = "pipeline_output_dir config analysis_run_id short_name minor_version"
  let ?run = "AList.update (ascii ''outdir'') ?out (AList.update (ascii ''fastq_input'') run_dir run)"
  let ?work = "pipeline_work_dir env config analysis_run_id (strftime (now env (clock_reads st)))"
  let ?trace = "pipeline_trace_path env config analysis_run_id short_name minor_version"
  from assms 1 2 3 4 obtain command where
    5: "pipeline_command env config pipeline ?run ?work ?trace = Inr command"
    by (cases "pipeline_command env config pipeline ?run ?work ?trace") (simp_all add: d)
  from assms 1 2 3 4 5 have 6: "list_all is_str command"
    by (cases "list_all is_str command") (simp_all add: d str_items_def)
  from assms 1 2 3 4 5 6 have
    7: "invoc = \<lparr>inv_run = ?run,
               inv_state = logging Info
                 (AnalysisStarted analysis_run_id (py_join (ascii '' '') (map py_str command)))
                 (st\<lparr>clock_reads := Suc (clock_reads st)\<rparr>),
               inv_run_id = analysis_run_id,
               inv_output_dir = ?out,
               inv_work_dir = ?work,
               inv_command = map py_str command\<rparr>"
    by (simp add: d str_items_def)
  show thesis
    by (rule that [OF 1 2 3 4 _ _ _ _ _ 6]) (simp_all add: 7 5)
qed

lemma inv_state_fields:
  assumes "prepare_invocation env config pipeline run st = Inr invoc"
  shows "files (inv_state invoc) = files st"
    and "executed (inv_state invoc) = executed st"
    and "clock_reads (inv_state invoc) = Suc (clock_reads st)"
    and "logged (inv_state invoc)
           = logged st
             @ [(Info, AnalysisStarted (inv_run_id invoc) (py_join (ascii '' '') (inv_command invoc)))]"
  by (rule prepare_invocation_Inr [OF assms], simp add: logging_def)+

lemma run_pipeline_command_failed:
  assumes "subprocess_run env (length (executed (inv_state invoc))) (inv_command invoc)
             (files (inv_state invoc)) = (Exited status, fs_run)"
      and "status \<noteq> 0"
  shows "run_pipeline_command env invoc =
           (None,
            (inv_state invoc)
              \<lparr>files := fs_run,
               logged := logged (inv_state invoc)
                 @ [(Error, AnalysisFailed (inv_run_id invoc) (py_join (ascii '' '') (inv_command invoc)))],
               clock_reads := Suc (clock_reads (inv_state invoc)),
               executed := executed (inv_state invoc) @ [inv_command invoc]\<rparr>)"
  using assms by (simp add: run_pipeline_command_def Let_def datetime_now_def logging_def)

lemma run_pipeline_command_completed:
  assumes "subprocess_run env (length (executed (inv_state invoc))) (inv_command invoc)
             (files (inv_state invoc)) = (Exited 0, fs_run)"
      and "write_error env (os_path_join (inv_output_dir invoc) (ascii ''analysis_complete.json'')) fs_run
             = None"
  shows "run_pipeline_command env invoc =
           (None,
            (inv_state invoc)
              \<lparr>files :=
                 rmtree_ignore_errors env (inv_work_dir invoc)
                   (fs_run(os_path_join (inv_output_dir invoc) (ascii ''analysis_complete.json'') \<mapsto>
                      File [((ascii ''timestamp_analysis_start''),
                             isoformat (now env (clock_reads (inv_state invoc)))),
                            ((ascii ''timestamp_analysis_complete''),
                             isoformat (now env (Suc (clock_reads (inv_state invoc)))))])),
               logged := logged (inv_state invoc)
                 @ [(Info, AnalysisCompleted (inv_run_id invoc) (py_join (ascii '' '') (inv_command invoc))),
                    (Info, AnalysisWorkDirDeleted (inv_run_id invoc) (inv_work_dir invoc))],
               clock_reads := Suc (Suc (clock_reads (inv_state invoc))),
               executed := executed (inv_state invoc) @ [inv_command invoc]\<rparr>)"
  using assms
  by (simp add: run_pipeline_command_def record_completion_def Let_def datetime_now_def
        logging_def)

lemma run_pipeline_command_write_failed:
  assumes "subprocess_run env (length (executed (inv_state invoc))) (inv_command invoc)
             (files (inv_state invoc)) = (Exited 0, fs_run)"
      and "write_error env (os_path_join (inv_output_dir invoc) (ascii ''analysis_complete.json'')) fs_run
             = Some fs_left"
  shows "run_pipeline_command env invoc =
           (None,
            (inv_state invoc)
              \<lparr>files := fs_left,
               logged := logged (inv_state invoc)
                 @ [(Error, DeleteAnalysisWorkDirFailed (inv_run_id invoc) (inv_work_dir invoc))],
               clock_reads := Suc (Suc (clock_reads (inv_state invoc))),
               executed := executed (inv_state invoc) @ [inv_command invoc]\<rparr>)"
  using assms
  by (simp add: run_pipeline_command_def record_completion_def Let_def datetime_now_def
        logging_def)

lemma analyze_pipeline_prepared:
  assumes "prepare_invocation env config pipeline run st = Inr invoc"
  shows "analyze_pipeline env config pipeline run st =
           (fst (run_pipeline_command env invoc), inv_run invoc,
            snd (run_pipeline_command env invoc))"
  using assms by (simp add: analyze_pipeline_def)

text \<open>The text \<^verbatim>\<open>isoformat()\<close> gives for a valid reading of the clock has the ISO-8601 shape.\<close>

lemma digit_nth: "k < 10 \<Longrightarrow> (ascii ''0123456789'') ! k \<in> set (ascii ''0123456789'')"
  by (rule nth_mem) simp

lemma str_nat_digits: "set (str_nat n) \<subseteq> set (ascii ''0123456789'')"
proof (induction n rule: str_nat.induct)
  case (1 n)
  show ?case
  proof (cases "n < 10")
    case True
    then show ?thesis using digit_nth [of n] by (subst str_nat.simps) simp
  next
    case False
    have "n mod 10 < 10" by simp
    then have "(ascii ''0123456789'') ! (n mod 10) \<in> set (ascii ''0123456789'')" by (rule digit_nth)
    with False "1.IH" show ?thesis by (subst str_nat.simps) simp
  qed
qed

lemma str_nat_length: "n < 10 ^ w \<Longrightarrow> 0 < w \<Longrightarrow> length (str_nat n) \<le> w"
proof (induction n arbitrary: w rule: str_nat.induct)
  case (1 n)
  show ?case
  proof (cases "n < 10")
    case True
    with "1.prems" show ?thesis by (subst str_nat.simps) simp
  next
    case False
    from "1.prems" obtain v where w: "w = Suc v" by (cases w) auto
    from False "1.prems" w have v: "0 < v" by (cases v) auto
    from "1.prems" w have "n div 10 < 10 ^ v"
      by (simp add: less_mult_imp_div_less mult.commute)
    from "1.IH" [OF False this v] have "length (str_nat (n div 10)) \<le> v" .
    with False w show ?thesis by (subst str_nat.simps) simp
  qed
qed

lemma digit_shape_digits:
  "set s \<subseteq> set (ascii ''0123456789'') \<Longrightarrow> digit_shape s = replicate (length s) (ascii_char CHR ''0'')"
  unfolding digit_shape_def by (induction s) auto

lemma digit_shape_zfill:
  assumes "n < 10 ^ w" and "0 < w"
  shows "digit_shape (zfill w (str_nat n)) = replicate w (ascii_char CHR ''0'')"
proof -
  have l: "length (str_nat n) \<le> w" using assms by (rule str_nat_length)
  have "digit_shape (zfill w (str_nat n))
          = replicate (w - length (str_nat n)) (ascii_char CHR ''0'') @ digit_shape (str_nat n)"
    by (simp add: digit_shape_def zfill_def)
  also have "\<dots> = replicate (w - length (str_nat n)) (ascii_char CHR ''0'')
                    @ replicate (length (str_nat n)) (ascii_char CHR ''0'')"
    by (simp add: digit_shape_digits [OF str_nat_digits])
  also have "\<dots> = replicate w (ascii_char CHR ''0'')"
    using l by (simp add: replicate_add [symmetric])
  finally show ?thesis .
qed

lemma digit_shape_append: "digit_shape (a @ b) = digit_shape a @ digit_shape b"
  by (simp add: digit_shape_def)

lemma digit_shape_Cons:
  "digit_shape (c # s) = (if c \<in> set (ascii ''0123456789'') then (ascii_char CHR ''0'') else c) # digit_shape s"
  by (simp add: digit_shape_def)

lemma digit_shape_Nil: "digit_shape [] = []"
  by (simp add: digit_shape_def)

lemma isoformat_is_iso8601:
  assumes "valid_datetime t"
  shows "is_iso8601 (isoformat t)"
proof -
  have r: "replicate 4 (ascii_char CHR ''0'') = (ascii ''0000'')" "replicate 2 (ascii_char CHR ''0'') = (ascii ''00'')"
    "replicate 6 (ascii_char CHR ''0'') = (ascii ''000000'')"
    by (simp_all add: eval_nat_numeral ascii_Cons)
  from assms have
    y: "digit_shape (zfill 4 (str_nat (dt_year t))) = (ascii ''0000'')" and
    mo: "digit_shape (zfill 2 (str_nat (dt_month t))) = (ascii ''00'')" and
    d: "digit_shape (zfill 2 (str_nat (dt_day t))) = (ascii ''00'')" and
    h: "digit_shape (zfill 2 (str_nat (dt_hour t))) = (ascii ''00'')" and
    mi: "digit_shape (zfill 2 (str_nat (dt_minute t))) = (ascii ''00'')" and
    s: "digit_shape (zfill 2 (str_nat (dt_second t))) = (ascii ''00'')" and
    us: "digit_shape (zfill 6 (str_nat (dt_microsecond t))) = (ascii ''000000'')"
    by (simp_all add: valid_datetime_def digit_shape_zfill r)
  have c: "digit_shape (ascii ''-'') = ascii ''-''" "digit_shape (ascii ''T'') = ascii ''T''"
    "digit_shape (ascii '':'') = ascii '':''" "digit_shape (ascii ''.'') = ascii ''.''"
    by (simp_all add: digit_shape_def ascii_Cons)
  show ?thesis
    unfolding is_iso8601_def isoformat_def
    by (simp add: digit_shape_append digit_shape_Nil y mo d h mi s us c
          ascii_append ascii_append_assoc)
qed

lemma demo_prepared:
  "prepare_invocation (demo_env status w r) (demo_config [demo_pipeline]) demo_pipeline
     demo_run demo_state = Inr (demo_invocation (demo_env status w r))"
proof -
  have "\<not> isl (prepare_invocation (demo_env status w r) (demo_config [demo_pipeline])
                  demo_pipeline demo_run demo_state)"
    by code_simp
  then show ?thesis unfolding demo_invocation_def by simp
qed

lemma demo_invocation_work_dir:
  "inv_work_dir (demo_invocation (demo_env status w r)) = demo_work_dir"
  by code_simp

lemma demo_invocation_marker_path:
  "os_path_join (inv_output_dir (demo_invocation (demo_env status w r)))
     (ascii ''analysis_complete.json'') = demo_marker_path"
  by code_simp

lemma demo_subprocess_run:
  "subprocess_run (demo_env status w r) n cmd fs = (Exited status, fs(demo_work_dir \<mapsto> Dir))"
  by (simp add: demo_env_def)

text \<open>
  C3. When the external process exits with a non-zero status, the dispatcher leaves the
  filesystem as the process left it (it writes no completion marker and does not remove
  the work directory), logs an \<open>analysis_failed\<close> event at error level, raises nothing,
  and the loop goes on with the pipelines that follow.
\<close>

theorem failed_pipeline_no_marker_and_loop_continues:
  assumes "prepare_invocation env config pipeline run st = Inr invoc"
      and "subprocess_run env (length (executed (inv_state invoc))) (inv_command invoc)
             (files (inv_state invoc)) = (Exited status, fs_run)"
      and "status \<noteq> 0"
  shows "\<exists>st'. analyze_pipeline env config pipeline run st = (None, inv_run invoc, st')
           \<and> files st' = fs_run
           \<and> logged st' = logged (inv_state invoc)
                @ [(Error, AnalysisFailed (inv_run_id invoc) (py_join (ascii '' '') (inv_command invoc)))]
           \<and> executed st' = executed st @ [inv_command invoc]
           \<and> analyze_pipelines env config (pipeline # rest) run st
               = analyze_pipelines env config rest (inv_run invoc) st'"
proof -
  note r = run_pipeline_command_failed [OF assms(2,3)]
  let ?st' = "snd (run_pipeline_command env invoc)"
  have a: "analyze_pipeline env config pipeline run st = (None, inv_run invoc, ?st')"
    by (simp add: analyze_pipeline_prepared [OF assms(1)] r)
  have "files ?st' = fs_run" by (simp add: r)
  moreover have "logged ?st' = logged (inv_state invoc)
      @ [(Error, AnalysisFailed (inv_run_id invoc) (py_join (ascii '' '') (inv_command invoc)))]"
    by (simp add: r)
  moreover have "executed ?st' = executed st @ [inv_command invoc]"
    by (simp add: r inv_state_fields(2) [OF assms(1)])
  moreover have "analyze_pipelines env config (pipeline # rest) run st
      = analyze_pipelines env config rest (inv_run invoc) ?st'"
    by (simp add: a)
  ultimately show ?thesis using a by blast
qed

theorem failed_pipeline_no_marker_and_loop_continues_witness:
  "prepare_invocation (demo_env 1 False False) (demo_config [demo_pipeline]) demo_pipeline
     demo_run demo_state = Inr (demo_invocation (demo_env 1 False False))
   \<and> subprocess_run (demo_env 1 False False)
        (length (executed (inv_state (demo_invocation (demo_env 1 False False)))))
        (inv_command (demo_invocation (demo_env 1 False False)))
        (files (inv_state (demo_invocation (demo_env 1 False False))))
       = (Exited 1, (files (inv_state (demo_invocation (demo_env 1 False False))))
                      (demo_work_dir \<mapsto> Dir))
   \<and> (1::int) \<noteq> 0
   \<and> (\<exists>st'. analyze_pipeline (demo_env 1 False False) (demo_config [demo_pipeline])
               demo_pipeline demo_run demo_state
               = (None, inv_run (demo_invocation (demo_env 1 False False)), st')
           \<and> files st' = (files (inv_state (demo_invocation (demo_env 1 False False))))
                            (demo_work_dir \<mapsto> Dir)
           \<and> logged st' = logged (inv_state (demo_invocation (demo_env 1 False False)))
                @ [(Error, AnalysisFailed (inv_run_id (demo_invocation (demo_env 1 False False)))
                     (py_join (ascii '' '') (inv_command (demo_invocation (demo_env 1 False False)))))]
           \<and> executed st' = executed demo_state
                @ [inv_command (demo_invocation (demo_env 1 False False))]
           \<and> analyze_pipelines (demo_env 1 False False) (demo_config [demo_pipeline])
                (demo_pipeline # [demo_second_pipeline]) demo_run demo_state
               = analyze_pipelines (demo_env 1 False False) (demo_config [demo_pipeline])
                   [demo_second_pipeline] (inv_run (demo_invocation (demo_env 1 False False))) st')
   \<and> files (snd (snd (analyze_pipeline (demo_env 1 False False) (demo_config [demo_pipeline])
               demo_pipeline demo_run demo_state))) demo_marker_path = None
   \<and> files (snd (snd (analyze_pipeline (demo_env 1 False False) (demo_config [demo_pipeline])
               demo_pipeline demo_run demo_state))) demo_work_dir = Some Dir
   \<and> length (executed (snd (snd (analyze_run (demo_env 1 False False)
               (demo_config [demo_pipeline, demo_second_pipeline]) demo_run demo_state)))) = 2"
proof -
  have n: "(1::int) \<noteq> 0" by simp
  note t = failed_pipeline_no_marker_and_loop_continues
             [OF demo_prepared demo_subprocess_run n, where rest = "[demo_second_pipeline]"]
  have m: "files (snd (snd (analyze_pipeline (demo_env 1 False False) (demo_config [demo_pipeline])
               demo_pipeline demo_run demo_state))) demo_marker_path = None"
    by code_simp
  have w: "files (snd (snd (analyze_pipeline (demo_env 1 False False) (demo_config [demo_pipeline])
               demo_pipeline demo_run demo_state))) demo_work_dir = Some Dir"
    by code_simp
  have e: "length (executed (snd (snd (analyze_run (demo_env 1 False False)
               (demo_config [demo_pipeline, demo_second_pipeline]) demo_run demo_state)))) = 2"
    by code_simp
  show ?thesis
    by (intro conjI) (rule demo_prepared demo_subprocess_run n t m w e)+
qed

lemma remove_tree_gone: "\<not> os_path_exists (remove_tree path fs) path"
  by (simp add: remove_tree_def os_path_exists_def)

lemma remove_tree_elsewhere:
  "p \<noteq> path \<Longrightarrow> \<not> prefix (path @ (ascii ''/'')) p \<Longrightarrow> remove_tree path fs p = fs p"
  by (simp add: remove_tree_def)

lemma inv_run_outdir:
  assumes "prepare_invocation env config pipeline run st = Inr invoc"
  shows "map_of (inv_run invoc) (ascii ''outdir'') = Some (inv_output_dir invoc)"
  by (rule prepare_invocation_Inr [OF assms]) (simp add: update_conv')

text \<open>
  C2 (amended). When the external process exits with status zero and the marker file can
  be written, the dispatcher writes \<open>analysis_complete.json\<close> into the pipeline's output
  directory, holding exactly the start and completion timestamps in ISO-8601 form (the
  clock readings taken before and after the process ran), and then removes the work
  directory: when the removal does not fail, the work directory no longer exists
  afterwards, and the marker is there unless it lay inside the work directory.
\<close>

theorem completion_marker_written_and_work_dir_removed:
  fixes env :: os_env and invoc :: invocation
  defines "marker \<equiv> os_path_join (inv_output_dir invoc) (ascii ''analysis_complete.json'')"
      and "t_start \<equiv> now env (clock_reads (inv_state invoc))"
      and "t_complete \<equiv> now env (Suc (clock_reads (inv_state invoc)))"
  defines "content \<equiv> [((ascii ''timestamp_analysis_start''), isoformat t_start),
                       ((ascii ''timestamp_analysis_complete''), isoformat t_complete)]"
  assumes "prepare_invocation env config pipeline run st = Inr invoc"
      and "subprocess_run env (length (executed (inv_state invoc))) (inv_command invoc)
             (files (inv_state invoc)) = (Exited 0, fs_run)"
      and "write_error env marker fs_run = None"
      and "rmtree_error env (inv_work_dir invoc) (fs_run(marker \<mapsto> File content)) = None"
  shows "\<exists>st'. analyze_pipeline env config pipeline run st = (None, inv_run invoc, st')
           \<and> map_of (inv_run invoc) (ascii ''outdir'') = Some (inv_output_dir invoc)
           \<and> files st' = remove_tree (inv_work_dir invoc) (fs_run(marker \<mapsto> File content))
           \<and> \<not> os_path_exists (files st') (inv_work_dir invoc)
           \<and> (marker \<noteq> inv_work_dir invoc \<and> \<not> prefix (inv_work_dir invoc @ (ascii ''/'')) marker
                 \<longrightarrow> files st' marker = Some (File content))
           \<and> (valid_datetime t_start \<and> valid_datetime t_complete
                 \<longrightarrow> is_iso8601 (isoformat t_start) \<and> is_iso8601 (isoformat t_complete))"
proof -
  note r = run_pipeline_command_completed
             [OF assms(6) assms(7) [unfolded marker_def]]
  let ?st' = "snd (run_pipeline_command env invoc)"
  have a: "analyze_pipeline env config pipeline run st = (None, inv_run invoc, ?st')"
    by (simp add: analyze_pipeline_prepared [OF assms(5)] r)
  have f: "files ?st' = remove_tree (inv_work_dir invoc) (fs_run(marker \<mapsto> File content))"
    using assms(8)
    by (simp add: r rmtree_ignore_errors_def marker_def content_def t_start_def t_complete_def)
  have g: "\<not> os_path_exists (files ?st') (inv_work_dir invoc)"
    unfolding f by (rule remove_tree_gone)
  have m: "marker \<noteq> inv_work_dir invoc \<and> \<not> prefix (inv_work_dir invoc @ (ascii ''/'')) marker
             \<longrightarrow> files ?st' marker = Some (File content)"
    unfolding f by (simp add: remove_tree_elsewhere)
  have i: "valid_datetime t_start \<and> valid_datetime t_complete
             \<longrightarrow> is_iso8601 (isoformat t_start) \<and> is_iso8601 (isoformat t_complete)"
    by (simp add: isoformat_is_iso8601)
  from a inv_run_outdir [OF assms(5)] f g m i show ?thesis by blast
qed

lemma demo_write_error:
  "write_error (demo_env status w r) p fs = (if w then Some fs else None)"
  by (simp add: demo_env_def)

lemma demo_rmtree_error:
  "rmtree_error (demo_env status w r) p fs = (if r then Some fs else None)"
  by (simp add: demo_env_def)

theorem completion_marker_written_and_work_dir_removed_witness:
  "prepare_invocation (demo_env 0 False False) (demo_config [demo_pipeline]) demo_pipeline
     demo_run demo_state = Inr (demo_invocation (demo_env 0 False False))
   \<and> fst (subprocess_run (demo_env 0 False False)
        (length (executed (inv_state (demo_invocation (demo_env 0 False False)))))
        (inv_command (demo_invocation (demo_env 0 False False)))
        (files (inv_state (demo_invocation (demo_env 0 False False))))) = Exited 0
   \<and> (\<exists>st'. analyze_pipeline (demo_env 0 False False) (demo_config [demo_pipeline])
               demo_pipeline demo_run demo_state
               = (None, inv_run (demo_invocation (demo_env 0 False False)), st')
           \<and> \<not> os_path_exists (files st') (inv_work_dir (demo_invocation (demo_env 0 False False))))
   \<and> inv_work_dir (demo_invocation (demo_env 0 False False)) = demo_work_dir
   \<and> os_path_join (inv_output_dir (demo_invocation (demo_env 0 False False)))
        (ascii ''analysis_complete.json'') = demo_marker_path
   \<and> demo_marker_path \<noteq> demo_work_dir \<and> \<not> prefix (demo_work_dir @ (ascii ''/'')) demo_marker_path
   \<and> files (snd (snd (analyze_pipeline (demo_env 0 False False) (demo_config [demo_pipeline])
               demo_pipeline demo_run demo_state))) demo_marker_path
       = Some (File [((ascii ''timestamp_analysis_start''), (ascii ''2023-01-01T12:01:07.000250'')),
                     ((ascii ''timestamp_analysis_complete''), (ascii ''2023-01-01T12:02:07.000250''))])
   \<and> valid_datetime (demo_clock 1) \<and> valid_datetime (demo_clock 2)
   \<and> is_iso8601 (ascii ''2023-01-01T12:01:07.000250'') \<and> is_iso8601 (ascii ''2023-01-01T12:02:07.000250'')"
proof -
  let ?env = "demo_env 0 False False"
  have w: "write_error ?env p fs = None" for p fs by (simp add: demo_write_error)
  have r: "rmtree_error ?env p fs = None" for p fs by (simp add: demo_rmtree_error)
  note t = completion_marker_written_and_work_dir_removed
             [OF demo_prepared demo_subprocess_run w r]
  from t have 5: "\<exists>st'. analyze_pipeline ?env (demo_config [demo_pipeline])
               demo_pipeline demo_run demo_state
               = (None, inv_run (demo_invocation ?env), st')
           \<and> \<not> os_path_exists (files st') (inv_work_dir (demo_invocation ?env))"
    by (elim exE conjE) (intro exI conjI, assumption+)
  have 1: "fst (subprocess_run ?env
        (length (executed (inv_state (demo_invocation ?env))))
        (inv_command (demo_invocation ?env))
        (files (inv_state (demo_invocation ?env)))) = Exited 0"
    by (simp add: demo_subprocess_run)
  have 2: "demo_marker_path \<noteq> demo_work_dir" "\<not> prefix (demo_work_dir @ (ascii ''/'')) demo_marker_path"
    by code_simp+
  have 3: "files (snd (snd (analyze_pipeline ?env (demo_config [demo_pipeline])
               demo_pipeline demo_run demo_state))) demo_marker_path
       = Some (File [((ascii ''timestamp_analysis_start''), (ascii ''2023-01-01T12:01:07.000250'')),
                     ((ascii ''timestamp_analysis_complete''), (ascii ''2023-01-01T12:02:07.000250''))])"
    by code_simp
  have 4: "valid_datetime (demo_clock 1)" "valid_datetime (demo_clock 2)"
    by (simp_all add: valid_datetime_def demo_clock_def)
  have 6: "is_iso8601 (ascii ''2023-01-01T12:01:07.000250'')" "is_iso8601 (ascii ''2023-01-01T12:02:07.000250'')"
    by code_simp+
  show ?thesis
    by (intro conjI)
       (rule demo_prepared 1 5 demo_invocation_work_dir demo_invocation_marker_path 2 3 4 6)+
qed

text \<open>
  C2 as stated fails. With the process exiting zero, either the marker cannot be written
  (then there is no marker, and the work directory stays), or it is written and the
  removal of the work directory fails (then the work directory stays).
\<close>

theorem exit_zero_without_marker_or_with_work_dir:
  "prepare_invocation (demo_env 0 True False) (demo_config [demo_pipeline]) demo_pipeline
     demo_run demo_state = Inr (demo_invocation (demo_env 0 True False))
   \<and> fst (subprocess_run (demo_env 0 True False)
        (length (executed (inv_state (demo_invocation (demo_env 0 True False)))))
        (inv_command (demo_invocation (demo_env 0 True False)))
        (files (inv_state (demo_invocation (demo_env 0 True False))))) = Exited 0
   \<and> fst (analyze_pipeline (demo_env 0 True False) (demo_config [demo_pipeline])
            demo_pipeline demo_run demo_state) = None
   \<and> \<not> os_path_exists
         (files (snd (snd (analyze_pipeline (demo_env 0 True False) (demo_config [demo_pipeline])
            demo_pipeline demo_run demo_state))))
         (os_path_join (inv_output_dir (demo_invocation (demo_env 0 True False)))
            (ascii ''analysis_complete.json''))
   \<and> os_path_exists
         (files (snd (snd (analyze_pipeline (demo_env 0 True False) (demo_config [demo_pipeline])
            demo_pipeline demo_run demo_state))))
         (inv_work_dir (demo_invocation (demo_env 0 True False)))
   \<and> prepare_invocation (demo_env 0 False True) (demo_config [demo_pipeline]) demo_pipeline
     demo_run demo_state = Inr (demo_invocation (demo_env 0 False True))
   \<and> fst (subprocess_run (demo_env 0 False True)
        (length (executed (inv_state (demo_invocation (demo_env 0 False True)))))
        (inv_command (demo_invocation (demo_env 0 False True)))
        (files (inv_state (demo_invocation (demo_env 0 False True))))) = Exited 0
   \<and> fst (analyze_pipeline (demo_env 0 False True) (demo_config [demo_pipeline])
            demo_pipeline demo_run demo_state) = None
   \<and> os_path_exists
         (files (snd (snd (analyze_pipeline (demo_env 0 False True) (demo_config [demo_pipeline])
            demo_pipeline demo_run demo_state))))
         (inv_work_dir (demo_invocation (demo_env 0 False True)))"
proof -
  have 1: "fst (subprocess_run (demo_env 0 True False)
        (length (executed (inv_state (demo_invocation (demo_env 0 True False)))))
        (inv_command (demo_invocation (demo_env 0 True False)))
        (files (inv_state (demo_invocation (demo_env 0 True False))))) = Exited 0"
    "fst (subprocess_run (demo_env 0 False True)
        (length (executed (inv_state (demo_invocation (demo_env 0 False True)))))
        (inv_command (demo_invocation (demo_env 0 False True)))
        (files (inv_state (demo_invocation (demo_env 0 False True))))) = Exited 0"
    by (simp_all add: demo_subprocess_run)
  have 2: "fst (analyze_pipeline (demo_env 0 True False) (demo_config [demo_pipeline])
            demo_pipeline demo_run demo_state) = None"
    "fst (analyze_pipeline (demo_env 0 False True) (demo_config [demo_pipeline])
            demo_pipeline demo_run demo_state) = None"
    by code_simp+
  have 3: "\<not> os_path_exists
         (files (snd (snd (analyze_pipeline (demo_env 0 True False) (demo_config [demo_pipeline])
            demo_pipeline demo_run demo_state))))
         (os_path_join (inv_output_dir (demo_invocation (demo_env 0 True False)))
            (ascii ''analysis_complete.json''))"
    by code_simp
  have 4: "os_path_exists
         (files (snd (snd (analyze_pipeline (demo_env 0 True False) (demo_config [demo_pipeline])
            demo_pipeline demo_run demo_state))))
         (inv_work_dir (demo_invocation (demo_env 0 True False)))"
    "os_path_exists
         (files (snd (snd (analyze_pipeline (demo_env 0 False True) (demo_config [demo_pipeline])
            demo_pipeline demo_run demo_state))))
         (inv_work_dir (demo_invocation (demo_env 0 False True)))"
    by code_simp+
  show ?thesis
    by (intro conjI) (rule demo_prepared 1 2 3 4)+
qed

text \<open>
  C7. When the process has exited with status zero and the marker is written, a removal of
  the work directory that fails changes nothing in what the dispatcher does next: nothing
  is raised and the marker stays, but the event logged is \<open>analysis_work_dir_deleted\<close>
  at info level, not \<open>delete_analysis_work_dir_failed\<close>. The failure is swallowed by
  \<^verbatim>\<open>ignore_errors=True\<close> and never reaches the \<^verbatim>\<open>except OSError\<close> handler.
\<close>

theorem failed_deletion_logged_as_deleted:
  fixes env :: os_env and invoc :: invocation
  defines "marker \<equiv> os_path_join (inv_output_dir invoc) (ascii ''analysis_complete.json'')"
      and "content \<equiv>
             [((ascii ''timestamp_analysis_start''),
               isoformat (now env (clock_reads (inv_state invoc)))),
              ((ascii ''timestamp_analysis_complete''),
               isoformat (now env (Suc (clock_reads (inv_state invoc)))))]"
  assumes "prepare_invocation env config pipeline run st = Inr invoc"
      and "subprocess_run env (length (executed (inv_state invoc))) (inv_command invoc)
             (files (inv_state invoc)) = (Exited 0, fs_run)"
      and "write_error env marker fs_run = None"
      and "rmtree_error env (inv_work_dir invoc) (fs_run(marker \<mapsto> File content)) = Some fs_left"
  shows "\<exists>st'. analyze_pipeline env config pipeline run st = (None, inv_run invoc, st')
           \<and> files st' = fs_left
           \<and> logged st' = logged st
                @ [(Info, AnalysisStarted (inv_run_id invoc) (py_join (ascii '' '') (inv_command invoc))),
                   (Info, AnalysisCompleted (inv_run_id invoc) (py_join (ascii '' '') (inv_command invoc))),
                   (Info, AnalysisWorkDirDeleted (inv_run_id invoc) (inv_work_dir invoc))]
           \<and> (Error, DeleteAnalysisWorkDirFailed (inv_run_id invoc) (inv_work_dir invoc))
                \<notin> set (drop (length (logged st)) (logged st'))"
proof -
  note r = run_pipeline_command_completed [OF assms(4) assms(5) [unfolded marker_def]]
  let ?st' = "snd (run_pipeline_command env invoc)"
  have a: "analyze_pipeline env config pipeline run st = (None, inv_run invoc, ?st')"
    by (simp add: analyze_pipeline_prepared [OF assms(3)] r)
  have f: "files ?st' = fs_left"
    using assms(6) by (simp add: r rmtree_ignore_errors_def marker_def content_def)
  have l: "logged ?st' = logged st
      @ [(Info, AnalysisStarted (inv_run_id invoc) (py_join (ascii '' '') (inv_command invoc))),
         (Info, AnalysisCompleted (inv_run_id invoc) (py_join (ascii '' '') (inv_command invoc))),
         (Info, AnalysisWorkDirDeleted (inv_run_id invoc) (inv_work_dir invoc))]"
    by (simp add: r inv_state_fields(4) [OF assms(3)])
  have n: "(Error, DeleteAnalysisWorkDirFailed (inv_run_id invoc) (inv_work_dir invoc))
      \<notin> set (drop (length (logged st)) (logged ?st'))"
    unfolding l by simp
  from a f l n show ?thesis by blast
qed

theorem failed_deletion_logged_as_deleted_witness:
  "prepare_invocation (demo_env 0 False True) (demo_config [demo_pipeline]) demo_pipeline
     demo_run demo_state = Inr (demo_invocation (demo_env 0 False True))
   \<and> fst (subprocess_run (demo_env 0 False True)
        (length (executed (inv_state (demo_invocation (demo_env 0 False True)))))
        (inv_command (demo_invocation (demo_env 0 False True)))
        (files (inv_state (demo_invocation (demo_env 0 False True))))) = Exited 0
   \<and> (\<exists>st'. analyze_pipeline (demo_env 0 False True) (demo_config [demo_pipeline])
               demo_pipeline demo_run demo_state
               = (None, inv_run (demo_invocation (demo_env 0 False True)), st')
           \<and> logged st' = logged demo_state
                @ [(Info, AnalysisStarted (inv_run_id (demo_invocation (demo_env 0 False True)))
                     (py_join (ascii '' '') (inv_command (demo_invocation (demo_env 0 False True))))),
                   (Info, AnalysisCompleted (inv_run_id (demo_invocation (demo_env 0 False True)))
                     (py_join (ascii '' '') (inv_command (demo_invocation (demo_env 0 False True))))),
                   (Info, AnalysisWorkDirDeleted
                     (inv_run_id (demo_invocation (demo_env 0 False True)))
                     (inv_work_dir (demo_invocation (demo_env 0 False True))))])
   \<and> inv_work_dir (demo_invocation (demo_env 0 False True)) = demo_work_dir
   \<and> os_path_exists
         (files (snd (snd (analyze_pipeline (demo_env 0 False True) (demo_config [demo_pipeline])
            demo_pipeline demo_run demo_state))))
         demo_work_dir
   \<and> os_path_exists
         (files (snd (snd (analyze_pipeline (demo_env 0 False True) (demo_config [demo_pipeline])
            demo_pipeline demo_run demo_state))))
         demo_marker_path"
proof -
  let ?env = "demo_env 0 False True"
  have w: "write_error ?env p fs = None" for p fs by (simp add: demo_write_error)
  have r: "rmtree_error ?env p fs = Some fs" for p fs by (simp add: demo_rmtree_error)
  note t = failed_deletion_logged_as_deleted [OF demo_prepared demo_subprocess_run w r]
  from t have 5: "\<exists>st'. analyze_pipeline ?env (demo_config [demo_pipeline])
               demo_pipeline demo_run demo_state
               = (None, inv_run (demo_invocation ?env), st')
           \<and> logged st' = logged demo_state
                @ [(Info, AnalysisStarted (inv_run_id (demo_invocation ?env))
                     (py_join (ascii '' '') (inv_command (demo_invocation ?env)))),
                   (Info, AnalysisCompleted (inv_run_id (demo_invocation ?env))
                     (py_join (ascii '' '') (inv_command (demo_invocation ?env)))),
                   (Info, AnalysisWorkDirDeleted
                     (inv_run_id (demo_invocation ?env))
                     (inv_work_dir (demo_invocation ?env)))]"
    by (elim exE conjE) (intro exI conjI, assumption+)
  have 1: "fst (subprocess_run ?env
        (length (executed (inv_state (demo_invocation ?env))))
        (inv_command (demo_invocation ?env))
        (files (inv_state (demo_invocation ?env)))) = Exited 0"
    by (simp add: demo_subprocess_run)
  have 2: "os_path_exists
         (files (snd (snd (analyze_pipeline ?env (demo_config [demo_pipeline])
            demo_pipeline demo_run demo_state))))
         demo_work_dir"
    "os_path_exists
         (files (snd (snd (analyze_pipeline ?env (demo_config [demo_pipeline])
            demo_pipeline demo_run demo_state))))
         demo_marker_path"
    by code_simp+
  show ?thesis
    by (intro conjI) (rule demo_prepared 1 5 demo_invocation_work_dir 2)+
qed

text \<open>The parameter loop.\<close>

lemma py_str_coerced: "map py_str (map (\<lambda>x. PStr (py_str x)) xs) = map py_str xs"
  by (induction xs) simp_all

lemma is_str_coerced: "list_all is_str (map (\<lambda>x. PStr (py_str x)) xs)"
  by (induction xs) simp_all

lemma add_parameters_Cons_Inr:
  assumes "add_parameters run ((flag, config_value) # params) acc = Inr cmd"
  obtains val where
    "add_parameters run params
       (map (\<lambda>x. PStr (py_str x)) (acc @ [PStr ((ascii ''--'') @ flag), val])) = Inr cmd"
    "if config_value = PNone then map_of run flag = Some (py_str val) else val = config_value"
proof (cases "config_value = PNone")
  case True
  with assms obtain field where f: "map_of run flag = Some field"
    by (cases "map_of run flag") simp_all
  from assms True f have
    "add_parameters run params
       (map (\<lambda>x. PStr (py_str x)) (acc @ [PStr ((ascii ''--'') @ flag), PStr field])) = Inr cmd"
    by simp
  moreover from True f
  have "if config_value = PNone then map_of run flag = Some (py_str (PStr field))
        else PStr field = config_value"
    by simp
  ultimately show thesis by (rule that)
next
  case False
  with assms have
    "add_parameters run params
       (map (\<lambda>x. PStr (py_str x)) (acc @ [PStr ((ascii ''--'') @ flag), config_value])) = Inr cmd"
    by simp
  moreover from False
  have "if config_value = PNone then map_of run flag = Some (py_str config_value)
        else config_value = config_value"
    by simp
  ultimately show thesis by (rule that)
qed

lemma add_parameters_tail:
  "add_parameters run params acc = Inr cmd
   \<Longrightarrow> \<exists>tail. map py_str cmd = map py_str acc @ tail \<and> length tail = 2 * length params"
proof (induction params arbitrary: acc)
  case Nil
  then show ?case by simp
next
  case (Cons p params)
  obtain flag config_value where p: "p = (flag, config_value)" by (cases p)
  obtain val where
    r: "add_parameters run params
          (map (\<lambda>x. PStr (py_str x)) (acc @ [PStr ((ascii ''--'') @ flag), val])) = Inr cmd"
    by (rule add_parameters_Cons_Inr [OF Cons.prems [unfolded p]])
  from Cons.IH [OF r] obtain tail where
    t: "map py_str cmd
          = map py_str (map (\<lambda>x. PStr (py_str x)) (acc @ [PStr ((ascii ''--'') @ flag), val])) @ tail"
    and l: "length tail = 2 * length params"
    by blast
  from t have "map py_str cmd = map py_str acc @ ([(ascii ''--'') @ flag, py_str val] @ tail)"
    by (simp add: py_str_coerced)
  moreover from l have "length ([(ascii ''--'') @ flag, py_str val] @ tail) = 2 * length (p # params)"
    by simp
  ultimately show ?case by blast
qed

lemma add_parameters_nth:
  "add_parameters run params acc = Inr cmd \<Longrightarrow> i < length params
   \<Longrightarrow> params ! i = (flag, config_value)
   \<Longrightarrow> \<exists>before val after.
         map py_str cmd = before @ [(ascii ''--'') @ flag, val] @ after
         \<and> length before = length acc + 2 * i
         \<and> length after = 2 * (length params - Suc i)
         \<and> (if config_value = PNone then map_of run flag = Some val
             else val = py_str config_value)"
proof (induction params arbitrary: acc i)
  case Nil
  then show ?case by simp
next
  case (Cons p params)
  obtain flag0 config_value0 where p: "p = (flag0, config_value0)" by (cases p)
  obtain val0 where
    r: "add_parameters run params
          (map (\<lambda>x. PStr (py_str x)) (acc @ [PStr ((ascii ''--'') @ flag0), val0])) = Inr cmd"
    and v0: "if config_value0 = PNone then map_of run flag0 = Some (py_str val0)
             else val0 = config_value0"
    by (rule add_parameters_Cons_Inr [OF Cons.prems(1) [unfolded p]])
  from v0 have v: "if config_value0 = PNone then map_of run flag0 = Some (py_str val0)
            else py_str val0 = py_str config_value0"
    by (simp split: if_splits)
  let ?acc = "map (\<lambda>x. PStr (py_str x)) (acc @ [PStr ((ascii ''--'') @ flag0), val0])"
  show ?case
  proof (cases i)
    case 0
    with Cons.prems(3) p have e: "flag = flag0" "config_value = config_value0" by simp_all
    from add_parameters_tail [OF r] obtain tail where
      t: "map py_str cmd = map py_str ?acc @ tail" and l: "length tail = 2 * length params"
      by blast
    from t have "map py_str cmd = map py_str acc @ [(ascii ''--'') @ flag, py_str val0] @ tail"
      by (simp add: py_str_coerced e)
    moreover have "length (map py_str acc) = length acc + 2 * i" using 0 by simp
    moreover have "length tail = 2 * (length (p # params) - Suc i)" using 0 l by simp
    moreover have "if config_value = PNone then map_of run flag = Some (py_str val0)
                   else py_str val0 = py_str config_value"
      using v e by simp
    ultimately show ?thesis by blast
  next
    case (Suc j)
    with Cons.prems(2,3) have j: "j < length params" "params ! j = (flag, config_value)"
      by simp_all
    from Cons.IH [OF r j] obtain before val after where
      "map py_str cmd = before @ [(ascii ''--'') @ flag, val] @ after"
      "length before = length ?acc + 2 * j"
      "length after = 2 * (length params - Suc j)"
      "if config_value = PNone then map_of run flag = Some val else val = py_str config_value"
      by blast
    moreover from this(2) Suc have "length before = length acc + 2 * i" by simp
    moreover from calculation(3) Suc have "length after = 2 * (length (p # params) - Suc i)"
      by simp
    ultimately show ?thesis by blast
  qed
qed

lemma add_parameters_strings:
  "add_parameters run params acc = Inr cmd \<Longrightarrow> list_all is_str acc \<Longrightarrow> list_all is_str cmd"
proof (induction params arbitrary: acc)
  case Nil
  then show ?case by simp
next
  case (Cons p params)
  obtain flag config_value where p: "p = (flag, config_value)" by (cases p)
  obtain val where
    r: "add_parameters run params
          (map (\<lambda>x. PStr (py_str x)) (acc @ [PStr ((ascii ''--'') @ flag), val])) = Inr cmd"
    by (rule add_parameters_Cons_Inr [OF Cons.prems(1) [unfolded p]])
  from Cons.IH [OF r is_str_coerced] show ?case .
qed

lemma base_command_strings:
  assumes "pipeline_short_name pipeline = Inr short_name"
      and "pipeline_minor_version pipeline = Inr minor_version"
  shows "list_all is_str (base_command env config pipeline work_dir trace_path)"
proof -
  from assms(1) obtain name where "pipeline_name pipeline = PStr name"
    by (cases "pipeline_name pipeline") (simp_all add: pipeline_short_name_def)
  moreover from assms(2) obtain version where "pipeline_version pipeline = PStr version"
    by (cases "pipeline_version pipeline") (simp_all add: pipeline_minor_version_def)
  ultimately show ?thesis by (simp add: base_command_def)
qed

text \<open>
  C8. Whenever the command of a pipeline is constructed (the short name and the minor
  version have been derived from a textual name and version, and every parameter has
  been resolved), each of its elements is a string, so it can be joined for the log and
  handed to the external engine as it is.
\<close>

theorem pipeline_command_all_strings:
  assumes "pipeline_short_name pipeline = Inr short_name"
      and "pipeline_minor_version pipeline = Inr minor_version"
      and "pipeline_command env config pipeline run work_dir trace_path = Inr command"
  shows "(\<forall>x \<in> set command. \<exists>s. x = PStr s)
         \<and> str_items command = Some (map py_str command)"
proof -
  have "list_all is_str command"
    using assms(3) base_command_strings [OF assms(1,2)]
    unfolding pipeline_command_def by (rule add_parameters_strings)
  moreover have "is_str x \<Longrightarrow> \<exists>s. x = PStr s" for x by (cases x) simp_all
  ultimately show ?thesis by (auto simp: str_items_def list_all_iff)
qed

lemma demo_short_name: "pipeline_short_name demo_pipeline = Inr (ascii ''basic-nanopore-qc'')"
  by code_simp

lemma demo_minor_version: "pipeline_minor_version demo_pipeline = Inr (ascii ''0.1'')"
  by code_simp

theorem pipeline_command_all_strings_witness:
  "pipeline_short_name demo_pipeline = Inr (ascii ''basic-nanopore-qc'')
   \<and> pipeline_minor_version demo_pipeline = Inr (ascii ''0.1'')
   \<and> pipeline_command (demo_env 0 False False) (demo_config [demo_pipeline]) demo_pipeline
        (inv_run (demo_invocation (demo_env 0 False False))) demo_work_dir (ascii ''trace.tsv'')
       = Inr (projr (pipeline_command (demo_env 0 False False) (demo_config [demo_pipeline])
                demo_pipeline (inv_run (demo_invocation (demo_env 0 False False)))
                demo_work_dir (ascii ''trace.tsv'')))
   \<and> str_items (projr (pipeline_command (demo_env 0 False False) (demo_config [demo_pipeline])
                demo_pipeline (inv_run (demo_invocation (demo_env 0 False False)))
                demo_work_dir (ascii ''trace.tsv'')))
       = Some (map py_str
                (projr (pipeline_command (demo_env 0 False False) (demo_config [demo_pipeline])
                   demo_pipeline (inv_run (demo_invocation (demo_env 0 False False)))
                   demo_work_dir (ascii ''trace.tsv''))))
   \<and> projr (pipeline_command (demo_env 0 False False) (demo_config [demo_pipeline])
                demo_pipeline (inv_run (demo_invocation (demo_env 0 False False)))
                demo_work_dir (ascii ''trace.tsv''))
       = [PStr (ascii ''nextflow''), PStr (ascii ''run''), PStr (ascii ''BCCDC-PHL/basic_nanopore_qc''), PStr (ascii ''-r''),
          PStr (ascii ''0.1.2''), PStr (ascii ''-profile''), PStr (ascii ''conda''), PStr (ascii ''--cache''),
          PStr (ascii ''/home/analyst/.conda/envs''), PStr (ascii ''-work-dir''),
          PStr (ascii ''/data/work/work-20230101_1200_X1_ABCDEFGH_abcdefgh-20230101120007''),
          PStr (ascii ''-with-trace''), PStr (ascii ''trace.tsv''),
          PStr (ascii ''--fastq_input''), PStr (ascii ''/data/runs/20230101_1200_X1_ABCDEFGH_abcdefgh''),
          PStr (ascii ''--outdir''),
          PStr (ascii ''/data/out/20230101_1200_X1_ABCDEFGH_abcdefgh/basic-nanopore-qc-0.1-output''),
          PStr (ascii ''--min_length''), PStr (ascii ''500'')]"
proof -
  let ?c = "pipeline_command (demo_env 0 False False) (demo_config [demo_pipeline])
              demo_pipeline (inv_run (demo_invocation (demo_env 0 False False)))
              demo_work_dir (ascii ''trace.tsv'')"
  have "\<not> isl ?c" by code_simp
  then have c: "?c = Inr (projr ?c)" by simp
  from pipeline_command_all_strings [OF demo_short_name demo_minor_version c]
  have s: "str_items (projr ?c) = Some (map py_str (projr ?c))" by (rule conjunct2)
  have v: "projr ?c
       = [PStr (ascii ''nextflow''), PStr (ascii ''run''), PStr (ascii ''BCCDC-PHL/basic_nanopore_qc''), PStr (ascii ''-r''),
          PStr (ascii ''0.1.2''), PStr (ascii ''-profile''), PStr (ascii ''conda''), PStr (ascii ''--cache''),
          PStr (ascii ''/home/analyst/.conda/envs''), PStr (ascii ''-work-dir''),
          PStr (ascii ''/data/work/work-20230101_1200_X1_ABCDEFGH_abcdefgh-20230101120007''),
          PStr (ascii ''-with-trace''), PStr (ascii ''trace.tsv''),
          PStr (ascii ''--fastq_input''), PStr (ascii ''/data/runs/20230101_1200_X1_ABCDEFGH_abcdefgh''),
          PStr (ascii ''--outdir''),
          PStr (ascii ''/data/out/20230101_1200_X1_ABCDEFGH_abcdefgh/basic-nanopore-qc-0.1-output''),
          PStr (ascii ''--min_length''), PStr (ascii ''500'')]"
    by code_simp
  show ?thesis
    by (intro conjI) (rule demo_short_name demo_minor_version c s v)+
qed

lemma base_command_length:
  "length (base_command env config pipeline work_dir trace_path)
     = (if send_notification_emails config = Some True then 15 else 13)"
  by (simp add: base_command_def)

text \<open>
  C5. On the command of a dispatch, the \<open>i\<close>-th configured parameter stands as the pair
  \<open>--flag value\<close> after the fixed part of the command and the pairs of the parameters
  before it. When the configured value is \<^verbatim>\<open>None\<close>, the value is the field of that
  name of the run descriptor, as the dispatcher has updated it (\<open>fastq_input\<close> set to
  the run directory, \<open>outdir\<close> to the output directory of the pipeline); otherwise it
  is the text of the configured value, whatever the descriptor holds.
\<close>

theorem parameter_value_on_command_line:
  assumes "prepare_invocation env config pipeline run st = Inr invoc"
      and "i < length (pipeline_parameters pipeline)"
      and "pipeline_parameters pipeline ! i = (flag, config_value)"
  shows "(\<exists>before val after.
            inv_command invoc = before @ [(ascii ''--'') @ flag, val] @ after
            \<and> length before = (if send_notification_emails config = Some True then 15 else 13) + 2 * i
            \<and> length after = 2 * (length (pipeline_parameters pipeline) - Suc i)
            \<and> (if config_value = PNone then map_of (inv_run invoc) flag = Some val
                else val = py_str config_value))
         \<and> map_of (inv_run invoc) (ascii ''fastq_input'') = map_of run (ascii ''run_dir'')
         \<and> map_of (inv_run invoc) (ascii ''outdir'') = Some (inv_output_dir invoc)"
proof -
  from prepare_invocation_Inr [OF assms(1)]
  obtain short_name minor_version analysis_run_id run_dir command where
    rd: "map_of run (ascii ''run_dir'') = Some run_dir"
    and ru: "inv_run invoc =
       AList.update (ascii ''outdir'') (pipeline_output_dir config analysis_run_id short_name minor_version)
         (AList.update (ascii ''fastq_input'') run_dir run)"
    and c: "pipeline_command env config pipeline (inv_run invoc) (inv_work_dir invoc)
       (pipeline_trace_path env config analysis_run_id short_name minor_version) = Inr command"
    and ic: "inv_command invoc = map py_str command"
    .
  from add_parameters_nth [OF c [unfolded pipeline_command_def] assms(2,3)]
  have "\<exists>before val after.
            inv_command invoc = before @ [(ascii ''--'') @ flag, val] @ after
            \<and> length before = (if send_notification_emails config = Some True then 15 else 13) + 2 * i
            \<and> length after = 2 * (length (pipeline_parameters pipeline) - Suc i)
            \<and> (if config_value = PNone then map_of (inv_run invoc) flag = Some val
                else val = py_str config_value)"
    unfolding ic base_command_length .
  moreover have "map_of (inv_run invoc) (ascii ''fastq_input'') = map_of run (ascii ''run_dir'')"
    by (simp add: ru rd update_conv')
  ultimately show ?thesis using inv_run_outdir [OF assms(1)] by blast
qed

theorem parameter_value_on_command_line_witness:
  "prepare_invocation (demo_env 0 False False) (demo_config [demo_pipeline]) demo_pipeline
     demo_run demo_state = Inr (demo_invocation (demo_env 0 False False))
   \<and> (0::nat) < length (pipeline_parameters demo_pipeline)
   \<and> pipeline_parameters demo_pipeline ! 0 = ((ascii ''fastq_input''), PNone)
   \<and> (\<exists>before val after.
         inv_command (demo_invocation (demo_env 0 False False))
           = before @ [(ascii ''--'') @ (ascii ''fastq_input''), val] @ after
         \<and> length before = 13 \<and> length after = 4
         \<and> map_of (inv_run (demo_invocation (demo_env 0 False False))) (ascii ''fastq_input'') = Some val)
   \<and> map_of (inv_run (demo_invocation (demo_env 0 False False))) (ascii ''fastq_input'')
       = Some (ascii ''/data/runs/20230101_1200_X1_ABCDEFGH_abcdefgh'')
   \<and> 2 < length (pipeline_parameters demo_pipeline)
   \<and> pipeline_parameters demo_pipeline ! 2 = ((ascii ''min_length''), PInt 500)
   \<and> (\<exists>before val after.
         inv_command (demo_invocation (demo_env 0 False False))
           = before @ [(ascii ''--'') @ (ascii ''min_length''), val] @ after
         \<and> length before = 17 \<and> length after = 0
         \<and> val = (ascii ''500''))
   \<and> inv_command (demo_invocation (demo_env 0 False False))
       = [(ascii ''nextflow''), (ascii ''run''), (ascii ''BCCDC-PHL/basic_nanopore_qc''), (ascii ''-r''), (ascii ''0.1.2''),
          (ascii ''-profile''), (ascii ''conda''), (ascii ''--cache''), (ascii ''/home/analyst/.conda/envs''), (ascii ''-work-dir''),
          (ascii ''/data/work/work-20230101_1200_X1_ABCDEFGH_abcdefgh-20230101120007''),
          (ascii ''-with-trace''),
          (ascii ''/data/out/20230101_1200_X1_ABCDEFGH_abcdefgh/basic-nanopore-qc-0.1-output/20230101_1200_X1_ABCDEFGH_abcdefgh_trace.tsv''),
          (ascii ''--fastq_input''), (ascii ''/data/runs/20230101_1200_X1_ABCDEFGH_abcdefgh''),
          (ascii ''--outdir''),
          (ascii ''/data/out/20230101_1200_X1_ABCDEFGH_abcdefgh/basic-nanopore-qc-0.1-output''),
          (ascii ''--min_length''), (ascii ''500'')]"
proof -
  let ?env = "demo_env 0 False False"
  have l0: "(0::nat) < length (pipeline_parameters demo_pipeline)"
    and p0: "pipeline_parameters demo_pipeline ! 0 = ((ascii ''fastq_input''), PNone)"
    and l2: "2 < length (pipeline_parameters demo_pipeline)"
    and p2: "pipeline_parameters demo_pipeline ! 2 = ((ascii ''min_length''), PInt 500)"
    by (simp_all add: demo_pipeline_def)
  have n: "send_notification_emails (demo_config [demo_pipeline]) \<noteq> Some True"
    "length (pipeline_parameters demo_pipeline) = 3"
    by (simp_all add: demo_config_def demo_pipeline_def)
  have s: "str_nat 500 = (ascii ''500'')" by code_simp
  from parameter_value_on_command_line [OF demo_prepared l0 p0, of 0 False False, THEN conjunct1]
  have a: "\<exists>before val after.
         inv_command (demo_invocation ?env) = before @ [(ascii ''--'') @ (ascii ''fastq_input''), val] @ after
         \<and> length before = 13 \<and> length after = 4
         \<and> map_of (inv_run (demo_invocation ?env)) (ascii ''fastq_input'') = Some val"
    by (simp add: n)
  from parameter_value_on_command_line [OF demo_prepared l2 p2, of 0 False False, THEN conjunct1]
  have b: "\<exists>before val after.
         inv_command (demo_invocation ?env) = before @ [(ascii ''--'') @ (ascii ''min_length''), val] @ after
         \<and> length before = 17 \<and> length after = 0
         \<and> val = (ascii ''500'')"
    by (simp add: n s)
  have f: "map_of (inv_run (demo_invocation ?env)) (ascii ''fastq_input'')
       = Some (ascii ''/data/runs/20230101_1200_X1_ABCDEFGH_abcdefgh'')"
    by code_simp
  have c: "inv_command (demo_invocation ?env)
       = [(ascii ''nextflow''), (ascii ''run''), (ascii ''BCCDC-PHL/basic_nanopore_qc''), (ascii ''-r''), (ascii ''0.1.2''),
          (ascii ''-profile''), (ascii ''conda''), (ascii ''--cache''), (ascii ''/home/analyst/.conda/envs''), (ascii ''-work-dir''),
          (ascii ''/data/work/work-20230101_1200_X1_ABCDEFGH_abcdefgh-20230101120007''),
          (ascii ''-with-trace''),
          (ascii ''/data/out/20230101_1200_X1_ABCDEFGH_abcdefgh/basic-nanopore-qc-0.1-output/20230101_1200_X1_ABCDEFGH_abcdefgh_trace.tsv''),
          (ascii ''--fastq_input''), (ascii ''/data/runs/20230101_1200_X1_ABCDEFGH_abcdefgh''),
          (ascii ''--outdir''),
          (ascii ''/data/out/20230101_1200_X1_ABCDEFGH_abcdefgh/basic-nanopore-qc-0.1-output''),
          (ascii ''--min_length''), (ascii ''500'')]"
    by code_simp
  show ?thesis
    by (intro conjI) (rule demo_prepared l0 p0 a f l2 p2 b c)+
qed

text \<open>The run descriptor across the loop over the pipelines.\<close>

lemma analyze_pipeline_returned:
  assumes "analyze_pipeline env config pipeline run st = (None, run', st')"
  obtains invoc where "prepare_invocation env config pipeline run st = Inr invoc"
    and "run' = inv_run invoc"
proof (cases "prepare_invocation env config pipeline run st")
  case (Inl failure)
  with assms show thesis by (cases failure) (simp add: analyze_pipeline_def)
next
  case (Inr invoc)
  with assms have "run' = inv_run invoc" by (simp add: analyze_pipeline_def)
  with Inr show thesis by (rule that)
qed

lemma analyze_pipeline_descriptor:
  assumes "analyze_pipeline env config pipeline run st = (None, run', st')"
  obtains run_dir analysis_run_id short_name minor_version where
    "map_of run (ascii ''run_dir'') = Some run_dir"
    "map_of run (ascii ''sequencing_run_id'') = Some analysis_run_id"
    "pipeline_short_name pipeline = Inr short_name"
    "pipeline_minor_version pipeline = Inr minor_version"
    "run' = AList.update (ascii ''outdir'')
              (pipeline_output_dir config analysis_run_id short_name minor_version)
              (AList.update (ascii ''fastq_input'') run_dir run)"
proof -
  from assms obtain invoc where p: "prepare_invocation env config pipeline run st = Inr invoc"
    and r: "run' = inv_run invoc"
    by (rule analyze_pipeline_returned)
  show thesis
    by (rule prepare_invocation_Inr [OF p]) (rule that, simp_all add: r)
qed

lemma analyze_pipelines_descriptor:
  assumes "analyze_pipelines env config ps run st = (None, run', st')" and "ps \<noteq> []"
  shows "\<exists>run_dir analysis_run_id short_name minor_version.
           map_of run (ascii ''run_dir'') = Some run_dir
           \<and> map_of run (ascii ''sequencing_run_id'') = Some analysis_run_id
           \<and> pipeline_short_name (last ps) = Inr short_name
           \<and> pipeline_minor_version (last ps) = Inr minor_version
           \<and> map_of run' (ascii ''fastq_input'') = Some run_dir
           \<and> map_of run' (ascii ''outdir'')
               = Some (pipeline_output_dir config analysis_run_id short_name minor_version)
           \<and> (\<forall>key. key \<noteq> (ascii ''fastq_input'') \<and> key \<noteq> (ascii ''outdir'')
                 \<longrightarrow> map_of run' key = map_of run key)"
  using assms
proof (induction ps arbitrary: run st)
  case Nil
  then show ?case by simp
next
  case (Cons p ps)
  obtain e run1 st1 where a: "analyze_pipeline env config p run st = (e, run1, st1)"
    by (cases "analyze_pipeline env config p run st")
  with Cons.prems(1) have e: "e = None" by (cases e) simp_all
  with a Cons.prems(1) have rest: "analyze_pipelines env config ps run1 st1 = (None, run', st')"
    by simp
  from a [unfolded e] obtain run_dir analysis_run_id short_name minor_version where
    rd: "map_of run (ascii ''run_dir'') = Some run_dir"
    and id: "map_of run (ascii ''sequencing_run_id'') = Some analysis_run_id"
    and sn: "pipeline_short_name p = Inr short_name"
    and mv: "pipeline_minor_version p = Inr minor_version"
    and r1: "run1 = AList.update (ascii ''outdir'')
              (pipeline_output_dir config analysis_run_id short_name minor_version)
              (AList.update (ascii ''fastq_input'') run_dir run)"
    by (rule analyze_pipeline_descriptor)
  have f1: "map_of run1 (ascii ''fastq_input'') = Some run_dir"
    and o1: "map_of run1 (ascii ''outdir'')
               = Some (pipeline_output_dir config analysis_run_id short_name minor_version)"
    and k1: "\<And>key. key \<noteq> (ascii ''fastq_input'') \<Longrightarrow> key \<noteq> (ascii ''outdir'')
               \<Longrightarrow> map_of run1 key = map_of run key"
    by (simp_all add: r1 update_conv')
  show ?case
  proof (cases "ps = []")
    case True
    with rest have "run' = run1" by simp
    then have "\<forall>key. key \<noteq> (ascii ''fastq_input'') \<and> key \<noteq> (ascii ''outdir'')
                 \<longrightarrow> map_of run' key = map_of run key"
      using k1 by simp
    with True rd id sn mv f1 o1 \<open>run' = run1\<close> show ?thesis
      by (intro exI conjI) simp_all
  next
    case False
    from False have 4: "last (p # ps) = last ps" by simp
    from Cons.IH [OF rest False] show ?thesis
    proof (elim exE conjE)
      fix run_dir' analysis_run_id' short_name' minor_version'
      assume rd': "map_of run1 (ascii ''run_dir'') = Some run_dir'"
        and id': "map_of run1 (ascii ''sequencing_run_id'') = Some analysis_run_id'"
        and sn': "pipeline_short_name (last ps) = Inr short_name'"
        and mv': "pipeline_minor_version (last ps) = Inr minor_version'"
        and f': "map_of run' (ascii ''fastq_input'') = Some run_dir'"
        and o': "map_of run' (ascii ''outdir'')
               = Some (pipeline_output_dir config analysis_run_id' short_name' minor_version')"
        and k': "\<forall>key. key \<noteq> (ascii ''fastq_input'') \<and> key \<noteq> (ascii ''outdir'')
                 \<longrightarrow> map_of run' key = map_of run1 key"
      from rd' k1 [of "(ascii ''run_dir'')"] rd have 1: "run_dir' = run_dir" by simp
      from id' k1 [of "(ascii ''sequencing_run_id'')"] id have 2: "analysis_run_id' = analysis_run_id"
        by simp
      have 3: "\<forall>key. key \<noteq> (ascii ''fastq_input'') \<and> key \<noteq> (ascii ''outdir'')
                 \<longrightarrow> map_of run' key = map_of run key"
        using k' k1 by simp
      show ?thesis
        unfolding 4
        by (intro exI conjI)
           (rule rd id sn' mv' f' [unfolded 1] o' [unfolded 2] 3)+
    qed
  qed
qed

text \<open>
  C9 (amended). When at least one pipeline is configured and \<^verbatim>\<open>analyze_run\<close> returns,
  the run descriptor it was given holds \<open>fastq_input\<close>, equal to \<open>run_dir\<close>, and
  \<open>outdir\<close>, the output directory of the last configured pipeline; every other field,
  \<open>run_dir\<close>, \<open>sequencing_run_id\<close> and \<open>instrument_type\<close> among them, is as it was.
\<close>

theorem analyze_run_updates_descriptor:
  assumes "analyze_run env config run st = (None, run', st')"
      and "pipelines config \<noteq> []"
  shows "\<exists>run_dir analysis_run_id short_name minor_version.
           map_of run (ascii ''run_dir'') = Some run_dir
           \<and> map_of run (ascii ''sequencing_run_id'') = Some analysis_run_id
           \<and> pipeline_short_name (last (pipelines config)) = Inr short_name
           \<and> pipeline_minor_version (last (pipelines config)) = Inr minor_version
           \<and> map_of run' (ascii ''fastq_input'') = Some run_dir
           \<and> map_of run' (ascii ''outdir'')
               = Some (pipeline_output_dir config analysis_run_id short_name minor_version)
           \<and> map_of run' (ascii ''run_dir'') = map_of run (ascii ''run_dir'')
           \<and> map_of run' (ascii ''sequencing_run_id'') = map_of run (ascii ''sequencing_run_id'')
           \<and> map_of run' (ascii ''instrument_type'') = map_of run (ascii ''instrument_type'')
           \<and> (\<forall>key. key \<noteq> (ascii ''fastq_input'') \<and> key \<noteq> (ascii ''outdir'')
                 \<longrightarrow> map_of run' key = map_of run key)"
proof -
  from analyze_pipelines_descriptor [OF assms(1) [unfolded analyze_run_def] assms(2)]
  show ?thesis
  proof (elim exE conjE)
    fix run_dir analysis_run_id short_name minor_version
    assume 1: "map_of run (ascii ''run_dir'') = Some run_dir"
       "map_of run (ascii ''sequencing_run_id'') = Some analysis_run_id"
       "pipeline_short_name (last (pipelines config)) = Inr short_name"
       "pipeline_minor_version (last (pipelines config)) = Inr minor_version"
       "map_of run' (ascii ''fastq_input'') = Some run_dir"
       "map_of run' (ascii ''outdir'')
               = Some (pipeline_output_dir config analysis_run_id short_name minor_version)"
      and k: "\<forall>key. key \<noteq> (ascii ''fastq_input'') \<and> key \<noteq> (ascii ''outdir'')
                 \<longrightarrow> map_of run' key = map_of run key"
    from k have 2: "map_of run' (ascii ''run_dir'') = map_of run (ascii ''run_dir'')"
      "map_of run' (ascii ''sequencing_run_id'') = map_of run (ascii ''sequencing_run_id'')"
      "map_of run' (ascii ''instrument_type'') = map_of run (ascii ''instrument_type'')"
      by simp_all
    show ?thesis
      by (intro exI conjI) (rule 1 2 k)+
  qed
qed

theorem analyze_run_updates_descriptor_witness:
  "analyze_run (demo_env 0 False False) (demo_config [demo_pipeline, demo_second_pipeline])
     demo_run demo_state
     = (None,
        fst (snd (analyze_run (demo_env 0 False False)
                    (demo_config [demo_pipeline, demo_second_pipeline]) demo_run demo_state)),
        snd (snd (analyze_run (demo_env 0 False False)
                    (demo_config [demo_pipeline, demo_second_pipeline]) demo_run demo_state)))
   \<and> pipelines (demo_config [demo_pipeline, demo_second_pipeline]) \<noteq> []
   \<and> (\<exists>run_dir analysis_run_id short_name minor_version.
         map_of demo_run (ascii ''run_dir'') = Some run_dir
         \<and> map_of demo_run (ascii ''sequencing_run_id'') = Some analysis_run_id
         \<and> pipeline_short_name (last (pipelines (demo_config [demo_pipeline, demo_second_pipeline])))
             = Inr short_name
         \<and> pipeline_minor_version (last (pipelines (demo_config [demo_pipeline, demo_second_pipeline])))
             = Inr minor_version
         \<and> map_of (fst (snd (analyze_run (demo_env 0 False False)
                    (demo_config [demo_pipeline, demo_second_pipeline]) demo_run demo_state)))
               (ascii ''fastq_input'') = Some run_dir
         \<and> map_of (fst (snd (analyze_run (demo_env 0 False False)
                    (demo_config [demo_pipeline, demo_second_pipeline]) demo_run demo_state)))
               (ascii ''outdir'')
             = Some (pipeline_output_dir (demo_config [demo_pipeline, demo_second_pipeline])
                       analysis_run_id short_name minor_version))
   \<and> fst (snd (analyze_run (demo_env 0 False False)
                    (demo_config [demo_pipeline, demo_second_pipeline]) demo_run demo_state))
       = [((ascii ''run_dir''), (ascii ''/data/runs/20230101_1200_X1_ABCDEFGH_abcdefgh'')),
          ((ascii ''sequencing_run_id''), (ascii ''20230101_1200_X1_ABCDEFGH_abcdefgh'')),
          ((ascii ''instrument_type''), (ascii ''gridion'')),
          ((ascii ''fastq_input''), (ascii ''/data/runs/20230101_1200_X1_ABCDEFGH_abcdefgh'')),
          ((ascii ''outdir''),
           (ascii ''/data/out/20230101_1200_X1_ABCDEFGH_abcdefgh/taxon-abundance-1.0-output''))]"
proof -
  let ?a = "analyze_run (demo_env 0 False False)
              (demo_config [demo_pipeline, demo_second_pipeline]) demo_run demo_state"
  have "fst ?a = None" by code_simp
  then have r: "?a = (None, fst (snd ?a), snd (snd ?a))"
    by (metis prod.collapse)
  have n: "pipelines (demo_config [demo_pipeline, demo_second_pipeline]) \<noteq> []"
    by (simp add: demo_config_def)
  from analyze_run_updates_descriptor [OF r n]
  have e: "\<exists>run_dir analysis_run_id short_name minor_version.
         map_of demo_run (ascii ''run_dir'') = Some run_dir
         \<and> map_of demo_run (ascii ''sequencing_run_id'') = Some analysis_run_id
         \<and> pipeline_short_name (last (pipelines (demo_config [demo_pipeline, demo_second_pipeline])))
             = Inr short_name
         \<and> pipeline_minor_version (last (pipelines (demo_config [demo_pipeline, demo_second_pipeline])))
             = Inr minor_version
         \<and> map_of (fst (snd ?a)) (ascii ''fastq_input'') = Some run_dir
         \<and> map_of (fst (snd ?a)) (ascii ''outdir'')
             = Some (pipeline_output_dir (demo_config [demo_pipeline, demo_second_pipeline])
                       analysis_run_id short_name minor_version)"
    by (elim exE conjE) (intro exI conjI, assumption+)
  have v: "fst (snd ?a)
       = [((ascii ''run_dir''), (ascii ''/data/runs/20230101_1200_X1_ABCDEFGH_abcdefgh'')),
          ((ascii ''sequencing_run_id''), (ascii ''20230101_1200_X1_ABCDEFGH_abcdefgh'')),
          ((ascii ''instrument_type''), (ascii ''gridion'')),
          ((ascii ''fastq_input''), (ascii ''/data/runs/20230101_1200_X1_ABCDEFGH_abcdefgh'')),
          ((ascii ''outdir''),
           (ascii ''/data/out/20230101_1200_X1_ABCDEFGH_abcdefgh/taxon-abundance-1.0-output''))]"
    by code_simp
  show ?thesis
    by (intro conjI) (rule r n e v)+
qed

text \<open>
  C9 as stated fails when no pipeline is configured: \<^verbatim>\<open>analyze_run\<close> returns and the
  descriptor is as it was, without \<open>fastq_input\<close> and \<open>outdir\<close>.
\<close>

theorem no_pipeline_descriptor_unchanged:
  "analyze_run (demo_env 0 False False) (demo_config []) demo_run demo_state
     = (None, demo_run, demo_state)
   \<and> map_of demo_run (ascii ''fastq_input'') = None
   \<and> map_of demo_run (ascii ''outdir'') = None"
  by (simp add: analyze_run_def demo_config_def demo_run_def)

lemma split_on_not_Nil: "split_on sep s \<noteq> []"
  by (induction s) (auto split: list.splits)

lemma split_on_length: "Suc 0 < length (split_on sep s) \<longleftrightarrow> sep \<in> set s"
proof (induction s)
  case Nil
  then show ?case by simp
next
  case (Cons c cs)
  show ?case
  proof (cases "c = sep")
    case True
    with split_on_not_Nil [of sep cs] show ?thesis by (cases "split_on sep cs") simp_all
  next
    case False
    with Cons split_on_not_Nil [of sep cs] show ?thesis
      by (cases "split_on sep cs") auto
  qed
qed

lemma pipeline_short_name_IndexError:
  "pipeline_short_name pipeline = Inl IndexError
     \<longleftrightarrow> (\<exists>name. pipeline_name pipeline = PStr name \<and> (ascii_char CHR ''/'') \<notin> set name)"
  by (cases "pipeline_name pipeline")
     (simp_all add: pipeline_short_name_def Let_def split_on_length)

lemma pipeline_minor_version_error:
  "pipeline_minor_version pipeline = Inl e \<Longrightarrow> e = AttributeError"
  by (cases "pipeline_version pipeline") (simp_all add: pipeline_minor_version_def)

lemma add_parameters_error:
  "add_parameters run params acc = Inl e \<Longrightarrow> \<exists>flag. e = KeyError flag"
proof (induction params arbitrary: acc)
  case Nil
  then show ?case by simp
next
  case (Cons p params)
  obtain flag config_value where p: "p = (flag, config_value)" by (cases p)
  show ?case
  proof (cases "config_value = PNone")
    case True
    show ?thesis
    proof (cases "map_of run flag")
      case None
      with Cons.prems p True show ?thesis by auto
    next
      case (Some field)
      with Cons.prems p True show ?thesis by (simp add: Cons.IH)
    qed
  next
    case False
    with Cons.prems p show ?thesis by (simp add: Cons.IH)
  qed
qed

lemma prepare_invocation_IndexError:
  assumes "prepare_invocation env config pipeline run st = Inl (IndexError, run', st')"
  shows "pipeline_short_name pipeline = Inl IndexError"
proof (cases "pipeline_short_name pipeline")
  case (Inl e)
  with assms show ?thesis by (simp add: prepare_invocation_def)
next
  case 1: (Inr short_name)
  show ?thesis
  proof (cases "pipeline_minor_version pipeline")
    case (Inl e)
    with assms 1 pipeline_minor_version_error [OF Inl] show ?thesis
      by (simp add: prepare_invocation_def)
  next
    case 2: (Inr minor_version)
    show ?thesis
    proof (cases "map_of run (ascii ''sequencing_run_id'')")
      case None
      with assms 1 2 show ?thesis by (simp add: prepare_invocation_def Let_def)
    next
      case 3: (Some analysis_run_id)
      show ?thesis
      proof (cases "map_of run (ascii ''run_dir'')")
        case None
        with assms 1 2 3 show ?thesis by (simp add: prepare_invocation_def Let_def)
      next
        case 4: (Some run_dir)
        let ?c = "pipeline_command env config pipeline
                    (AList.update (ascii ''outdir'')
                       (pipeline_output_dir config analysis_run_id short_name minor_version)
                       (AList.update (ascii ''fastq_input'') run_dir run))
                    (pipeline_work_dir env config analysis_run_id
                       (strftime (fst (datetime_now env st))))
                    (pipeline_trace_path env config analysis_run_id short_name minor_version)"
        show ?thesis
        proof (cases ?c)
          case (Inl e)
          from add_parameters_error [OF Inl [unfolded pipeline_command_def]]
          obtain flag where "e = KeyError flag" by blast
          with assms 1 2 3 4 Inl show ?thesis by (simp add: prepare_invocation_def Let_def)
        next
          case 5: (Inr command)
          with assms 1 2 3 4 show ?thesis
            by (cases "str_items command") (simp_all add: prepare_invocation_def Let_def)
        qed
      qed
    qed
  qed
qed

lemma run_pipeline_command_error:
  "fst (run_pipeline_command env invoc) = Some e \<Longrightarrow> e = ValueError"
  by (auto simp: run_pipeline_command_def record_completion_def Let_def
           split: proc_result.splits if_splits option.splits)

lemma analyze_pipeline_IndexError:
  assumes "fst (analyze_pipeline env config pipeline run st) = Some IndexError"
  shows "pipeline_short_name pipeline = Inl IndexError"
proof (cases "prepare_invocation env config pipeline run st")
  case (Inl failure)
  obtain e run' st' where f: "failure = (e, run', st')" by (cases failure)
  with assms Inl have "e = IndexError" by (simp add: analyze_pipeline_def)
  with Inl f show ?thesis by (simp add: prepare_invocation_IndexError)
next
  case (Inr invoc)
  with assms have "fst (run_pipeline_command env invoc) = Some IndexError"
    by (simp add: analyze_pipeline_def)
  from run_pipeline_command_error [OF this] show ?thesis by simp
qed

lemma analyze_pipelines_IndexError:
  "fst (analyze_pipelines env config ps run st) = Some IndexError
   \<Longrightarrow> \<exists>p \<in> set ps. pipeline_short_name p = Inl IndexError"
proof (induction ps arbitrary: run st)
  case Nil
  then show ?case by simp
next
  case (Cons p ps)
  obtain e run1 st1 where a: "analyze_pipeline env config p run st = (e, run1, st1)"
    by (cases "analyze_pipeline env config p run st")
  show ?case
  proof (cases e)
    case None
    with a Cons.prems have "fst (analyze_pipelines env config ps run1 st1) = Some IndexError"
      by simp
    from Cons.IH [OF this] show ?thesis by simp
  next
    case (Some e')
    with a Cons.prems have "fst (analyze_pipeline env config p run st) = Some IndexError"
      by simp
    from analyze_pipeline_IndexError [OF this] show ?thesis by simp
  qed
qed

text \<open>
  C10. When the name of the first configured pipeline holds no \<open>/\<close>, \<^verbatim>\<open>analyze_run\<close>
  raises \<^verbatim>\<open>IndexError\<close> at once: the descriptor and the state are as they were, so no
  clock was read, nothing was logged and no process was run. When the name of every
  configured pipeline holds a \<open>/\<close>, \<^verbatim>\<open>analyze_run\<close> never raises \<^verbatim>\<open>IndexError\<close>.
\<close>

theorem pipeline_name_needs_separator:
  "(pipelines config = pipeline # rest \<and> pipeline_name pipeline = PStr name
      \<and> (ascii_char CHR ''/'') \<notin> set name
    \<longrightarrow> analyze_run env config run st = (Some IndexError, run, st))
   \<and> ((\<forall>p \<in> set (pipelines config). \<exists>n. pipeline_name p = PStr n \<and> (ascii_char CHR ''/'') \<in> set n)
    \<longrightarrow> fst (analyze_run env config run st) \<noteq> Some IndexError)"
proof (intro conjI impI)
  assume a: "pipelines config = pipeline # rest \<and> pipeline_name pipeline = PStr name
      \<and> (ascii_char CHR ''/'') \<notin> set name"
  then have "pipeline_short_name pipeline = Inl IndexError"
    by (simp add: pipeline_short_name_IndexError)
  then have "analyze_pipeline env config pipeline run st = (Some IndexError, run, st)"
    by (simp add: analyze_pipeline_def prepare_invocation_def)
  with a show "analyze_run env config run st = (Some IndexError, run, st)"
    by (simp add: analyze_run_def)
next
  assume b: "\<forall>p \<in> set (pipelines config). \<exists>n. pipeline_name p = PStr n \<and> (ascii_char CHR ''/'') \<in> set n"
  show "fst (analyze_run env config run st) \<noteq> Some IndexError"
  proof
    assume "fst (analyze_run env config run st) = Some IndexError"
    from analyze_pipelines_IndexError [OF this [unfolded analyze_run_def]]
    obtain p where p: "p \<in> set (pipelines config)" "pipeline_short_name p = Inl IndexError"
      by blast
    from p(2) obtain n where "pipeline_name p = PStr n" "(ascii_char CHR ''/'') \<notin> set n"
      unfolding pipeline_short_name_IndexError by blast
    with b p(1) show False by auto
  qed
qed

theorem pipeline_name_needs_separator_witness:
  "pipelines (demo_config [demo_unqualified_pipeline, demo_pipeline])
     = demo_unqualified_pipeline # [demo_pipeline]
   \<and> pipeline_name demo_unqualified_pipeline = PStr (ascii ''basic_nanopore_qc'')
   \<and> (ascii_char CHR ''/'') \<notin> set (ascii ''basic_nanopore_qc'')
   \<and> analyze_run (demo_env 0 False False) (demo_config [demo_unqualified_pipeline, demo_pipeline])
        demo_run demo_state = (Some IndexError, demo_run, demo_state)
   \<and> executed demo_state = []
   \<and> pipeline_name demo_pipeline = PStr (ascii ''BCCDC-PHL/basic_nanopore_qc'')
   \<and> (ascii_char CHR ''/'') \<in> set (ascii ''BCCDC-PHL/basic_nanopore_qc'')
   \<and> pipeline_name demo_second_pipeline = PStr (ascii ''BCCDC-PHL/taxon-abundance'')
   \<and> (ascii_char CHR ''/'') \<in> set (ascii ''BCCDC-PHL/taxon-abundance'')
   \<and> fst (analyze_run (demo_env 0 False False) (demo_config [demo_pipeline, demo_second_pipeline])
            demo_run demo_state) \<noteq> Some IndexError"
proof -
  have 1: "pipelines (demo_config [demo_unqualified_pipeline, demo_pipeline])
     = demo_unqualified_pipeline # [demo_pipeline]"
    by (simp add: demo_config_def)
  have 2: "pipeline_name demo_unqualified_pipeline = PStr (ascii ''basic_nanopore_qc'')"
    by (simp add: demo_unqualified_pipeline_def)
  have 3: "(ascii_char CHR ''/'') \<notin> set (ascii ''basic_nanopore_qc'')" by simp
  have 4: "executed demo_state = []" by (simp add: demo_state_def)
  have 5: "pipeline_name demo_pipeline = PStr (ascii ''BCCDC-PHL/basic_nanopore_qc'')"
    by (simp add: demo_pipeline_def)
  have 6: "(ascii_char CHR ''/'') \<in> set (ascii ''BCCDC-PHL/basic_nanopore_qc'')" by simp
  have 7: "pipeline_name demo_second_pipeline = PStr (ascii ''BCCDC-PHL/taxon-abundance'')"
    by (simp add: demo_second_pipeline_def)
  have 8: "(ascii_char CHR ''/'') \<in> set (ascii ''BCCDC-PHL/taxon-abundance'')" by simp
  from 1 2 3 have a: "pipelines (demo_config [demo_unqualified_pipeline, demo_pipeline])
       = demo_unqualified_pipeline # [demo_pipeline]
     \<and> pipeline_name demo_unqualified_pipeline = PStr (ascii ''basic_nanopore_qc'')
     \<and> (ascii_char CHR ''/'') \<notin> set (ascii ''basic_nanopore_qc'')"
    by (intro conjI)
  have b: "\<forall>p \<in> set (pipelines (demo_config [demo_pipeline, demo_second_pipeline])).
             \<exists>n. pipeline_name p = PStr n \<and> (ascii_char CHR ''/'') \<in> set n"
    using 5 6 7 8 by (simp add: demo_config_def)
  note t1 = pipeline_name_needs_separator
    [where config = "demo_config [demo_unqualified_pipeline, demo_pipeline]"
       and pipeline = demo_unqualified_pipeline and rest = "[demo_pipeline]"
       and name = "(ascii ''basic_nanopore_qc'')" and env = "demo_env 0 False False"
       and run = demo_run and st = demo_state, THEN conjunct1, THEN mp, OF a]
  note t2 = pipeline_name_needs_separator
    [where config = "demo_config [demo_pipeline, demo_second_pipeline]"
       and env = "demo_env 0 False False"
       and run = demo_run and st = demo_state, THEN conjunct2, THEN mp, OF b]
  show ?thesis
    by (intro conjI) (rule 1 2 3 t1 4 5 6 7 8 t2)+
qed

end
